theory Spec2Isabelle
  imports Complex_Main "HOL-Library.Monad_Syntax"
begin

section \<open>Shared object model\<close>

text \<open>
  The four control loops exchange pods, NodeProfile specs and AutoScaleRequests through the
  orchestrator's object store. Python dictionaries read with \<open>d.get(k, default)\<close> are
  records of optional fields (\<open>None\<close>: the key is absent). Numbers read from JSON or produced
  by \<open>float(...)\<close> are modelled as rationals: the code only adds, subtracts, divides and
  compares them. Exceptions are values of \<open>py_error\<close>.
\<close>

datatype py_error =
  KeyError | ZeroDivisionError | TypeError | NameError | IndexError | ValueError | ApiException

text \<open>
  A pod as the Packer and the Autoscaler read it. \<open>cpu_request\<close> and \<open>memory_request\<close> are
  the numbers the request parsers yield for the first container (\<open>0.0\<close> when parsing raises).
  \<open>runtime_annotation\<close> is \<open>Some r\<close> when \<open>int(annotations["runtime"])\<close> yields \<open>r\<close>, and
  \<open>None\<close> when the annotation is absent or the conversion raises.
\<close>

record pod =
  pod_name :: string
  pod_namespace :: string
  scheduler_name :: string
  phase :: string
  workload_type_label :: "string option"
  runtime_annotation :: "int option"
  cpu_request :: rat
  memory_request :: rat

record node_profile =
  instanceName :: "string option"
  instanceType :: "string option"
  cpuCapacity :: "rat option"
  memoryCapacity :: "rat option"
  cpuAvailable :: "rat option"
  memoryAvailable :: "rat option"
  runtime :: "int option"

definition get_or :: "'a option \<Rightarrow> 'a \<Rightarrow> 'a" where
  "get_or v d = (case v of None \<Rightarrow> d | Some x \<Rightarrow> x)"

section \<open>Task Packer: scheduling algorithms\<close>

text \<open>\<open>get_pod_runtime\<close>: the annotation, 300 when it is absent or unparsable.\<close>

definition get_pod_runtime :: "pod \<Rightarrow> int" where
  "get_pod_runtime p = (case runtime_annotation p of None \<Rightarrow> 300 | Some r \<Rightarrow> r)"

text \<open>
  \<open>bfd_algorithm\<close>: filter the nodes that fit, sort them by \<open>memoryAvailable\<close> (Python's sort
  is stable, as \<open>sort_key\<close> is), return \<open>suitable_nodes[0]['instanceName']\<close>; the subscript
  raises \<open>KeyError\<close> when that node has no such key.
\<close>

definition fits :: "pod \<Rightarrow> node_profile \<Rightarrow> bool" where
  "fits p n \<longleftrightarrow> get_or (cpuAvailable n) 0 \<ge> cpu_request p
              \<and> get_or (memoryAvailable n) 0 \<ge> memory_request p"

definition mem_key :: "node_profile \<Rightarrow> rat" where
  "mem_key n = get_or (memoryAvailable n) 0"

definition subscript_instanceName :: "node_profile \<Rightarrow> py_error + string option" where
  "subscript_instanceName n =
     (case instanceName n of None \<Rightarrow> Inl KeyError | Some s \<Rightarrow> Inr (Some s))"

definition bfd_algorithm :: "pod \<Rightarrow> node_profile list \<Rightarrow> py_error + string option" where
  "bfd_algorithm p node_group =
     (let suitable_nodes = filter (fits p) node_group;
          sorted_nodes = sort_key mem_key suitable_nodes
      in case sorted_nodes of
           [] \<Rightarrow> Inr None
         | n # _ \<Rightarrow> subscript_instanceName n)"

text \<open>
  \<open>time_bin_bfd\<close>. The dictionary \<open>bins\<close> is an insertion-ordered association list;
  \<open>setdefault_append\<close> is \<open>bins.setdefault(k, []).append(node)\<close>. Python's \<open>//\<close> on
  integers is floor division, as \<open>div\<close> on \<open>int\<close> is, and raises on a zero divisor.
  The test \<open>if node_name:\<close> is false for \<open>None\<close> and for the empty string.
\<close>

fun setdefault_append ::
  "(int \<times> node_profile list) list \<Rightarrow> int \<Rightarrow> node_profile \<Rightarrow> (int \<times> node_profile list) list" where
  "setdefault_append [] k n = [(k, [n])]"
| "setdefault_append ((k', ns) # rest) k n =
     (if k' = k then (k', ns @ [n]) # rest else (k', ns) # setdefault_append rest k n)"

definition node_runtime :: "node_profile \<Rightarrow> int \<Rightarrow> int" where
  "node_runtime n scaling_cycle = get_or (runtime n) scaling_cycle"

definition build_bins :: "node_profile list \<Rightarrow> int \<Rightarrow> (int \<times> node_profile list) list" where
  "build_bins batch_node_group scaling_cycle =
     foldl (\<lambda>bins n. setdefault_append bins (node_runtime n scaling_cycle div scaling_cycle) n)
       [] batch_node_group"

definition bin_order :: "int \<Rightarrow> (int \<times> node_profile list) list \<Rightarrow> int list" where
  "bin_order bin_number bins =
     [bin_number] @ sort (filter (\<lambda>x. x > bin_number) (map fst bins))
                  @ rev (sort (filter (\<lambda>x. x < bin_number) (map fst bins)))"

fun search_bins ::
  "pod \<Rightarrow> (int \<times> node_profile list) list \<Rightarrow> int list \<Rightarrow> py_error + string option" where
  "search_bins p bins [] = Inr None"
| "search_bins p bins (b # bs) =
     (case map_of bins b of
        None \<Rightarrow> search_bins p bins bs
      | Some node_group \<Rightarrow>
          (case bfd_algorithm p node_group of
             Inl e \<Rightarrow> Inl e
           | Inr None \<Rightarrow> search_bins p bins bs
           | Inr (Some node_name) \<Rightarrow>
               if node_name \<noteq> [] then Inr (Some node_name) else search_bins p bins bs))"

definition time_bin_bfd :: "pod \<Rightarrow> node_profile list \<Rightarrow> int \<Rightarrow> py_error + string option" where
  "time_bin_bfd p batch_node_group scaling_cycle =
     (if scaling_cycle = 0 then Inl ZeroDivisionError
      else let pod_runtime = get_pod_runtime p;
               bin_number = pod_runtime div scaling_cycle;
               bins = build_bins batch_node_group scaling_cycle
           in search_bins p bins (bin_order bin_number bins))"

text \<open>
  The same scheduler in the words of the specification: a node's bin is its runtime-age
  (the scaling cycle when the field is missing) divided by the scaling cycle; the search
  visits the task's bin, then the node bins above it in ascending order, then the node bins
  below it in descending order; the result is the first candidate BFD finds in the nodes of
  a visited bin.
\<close>

definition node_bin :: "node_profile \<Rightarrow> int \<Rightarrow> int" where
  "node_bin n scaling_cycle = node_runtime n scaling_cycle div scaling_cycle"

definition spec_bin_order :: "int \<Rightarrow> node_profile list \<Rightarrow> int \<Rightarrow> int list" where
  "spec_bin_order task_bin nodes scaling_cycle =
     task_bin
     # sort (remdups (filter (\<lambda>b. b > task_bin) (map (\<lambda>n. node_bin n scaling_cycle) nodes)))
     @ rev (sort (remdups (filter (\<lambda>b. b < task_bin) (map (\<lambda>n. node_bin n scaling_cycle) nodes))))"

fun first_candidate :: "(py_error + string option) list \<Rightarrow> py_error + string option" where
  "first_candidate [] = Inr None"
| "first_candidate (Inr None # rs) = first_candidate rs"
| "first_candidate (r # rs) = r"

section \<open>Autoscaler\<close>

text \<open>
  The flavor catalog of the source; the prices \<open>0.0060\<close> and \<open>0.0686\<close> are the rationals
  \<open>3/500\<close> and \<open>343/5000\<close>.
\<close>

record flavor =
  fl_name :: string
  fl_cpu :: rat
  fl_memory :: rat
  fl_price :: rat

definition e2_micro :: flavor where
  "e2_micro = \<lparr>fl_name = ''e2-micro'', fl_cpu = 2, fl_memory = 1, fl_price = 3 / 500\<rparr>"

definition e2_standard_2 :: flavor where
  "e2_standard_2 =
     \<lparr>fl_name = ''e2-standard-2'', fl_cpu = 2, fl_memory = 8, fl_price = 343 / 5000\<rparr>"

definition VM_FLAVORS :: "flavor list" where
  "VM_FLAVORS = [e2_micro, e2_standard_2]"

text \<open>\<open>calculate_score\<close>: each of the three divisions raises on a zero divisor.\<close>

definition calculate_score :: "flavor \<Rightarrow> rat \<Rightarrow> rat \<Rightarrow> py_error + rat" where
  "calculate_score f cpu_usage memory_usage =
     (if fl_cpu f = 0 then Inl ZeroDivisionError
      else if fl_memory f = 0 then Inl ZeroDivisionError
      else if fl_price f = 0 then Inl ZeroDivisionError
      else let normalized_cpu = min (cpu_usage / fl_cpu f) 1;
               normalized_memory = min (memory_usage / fl_memory f) 1
           in Inr ((1 / 2 * normalized_cpu + 1 / 2 * normalized_memory) / fl_price f))"

text \<open>
  The inner \<open>for flavor in vm_flavors\<close> loop of \<open>greedy_autoscaling\<close>, started with
  \<open>best = None\<close> and \<open>best_score = -1\<close>: a flavor replaces the best one only on a strictly
  greater score.
\<close>

fun best_flavor ::
  "flavor list \<Rightarrow> rat \<Rightarrow> rat \<Rightarrow> flavor option \<Rightarrow> rat \<Rightarrow> py_error + flavor option" where
  "best_flavor [] total_cpu total_mem best best_score = Inr best"
| "best_flavor (f # fs) total_cpu total_mem best best_score =
     (case calculate_score f (min total_cpu (fl_cpu f)) (min total_mem (fl_memory f)) of
        Inl e \<Rightarrow> Inl e
      | Inr score \<Rightarrow>
          if score > best_score then best_flavor fs total_cpu total_mem (Some f) score
          else best_flavor fs total_cpu total_mem best best_score)"

text \<open>
  The \<open>while total_cpu > 0 or total_mem > 0\<close> loop. Nothing bounds its iterations for an
  arbitrary catalog (a flavor of negative capacity raises the totals), so a run that never
  leaves the loop is the value \<open>None\<close>. The totals are rationals here and doubles in the
  source, where a subtraction can leave a large total as it was (\<open>1e17 - 2 = 1e17\<close>):
  what is proved of the loop below is proved at inputs where every operation of the source
  is exact, and nothing is concluded from the model about whether the loop is left.
\<close>

partial_function (option) greedy_loop ::
  "rat \<Rightarrow> rat \<Rightarrow> flavor list \<Rightarrow> flavor list \<Rightarrow> (py_error + flavor list) option" where
  "greedy_loop total_cpu total_mem vm_flavors selected =
     (if total_cpu > 0 \<or> total_mem > 0 then
        (case best_flavor vm_flavors total_cpu total_mem None (- 1) of
           Inl e \<Rightarrow> Some (Inl e)
         | Inr None \<Rightarrow> Some (Inr selected)
         | Inr (Some best) \<Rightarrow>
             greedy_loop (total_cpu - fl_cpu best) (total_mem - fl_memory best) vm_flavors
               (selected @ [best]))
      else Some (Inr selected))"

definition greedy_autoscaling :: "pod list \<Rightarrow> flavor list \<Rightarrow> (py_error + flavor list) option" where
  "greedy_autoscaling pending_pods vm_flavors =
     greedy_loop (sum_list (map cpu_request pending_pods))
                 (sum_list (map memory_request pending_pods)) vm_flavors []"

text \<open>
  \<open>batch_node_autoscaling\<close>. The Autoscaler reads whole NodeProfile objects and looks into
  their \<open>spec\<close>, which is the record \<open>node_profile\<close>.
\<close>

definition zero_bin_nodes :: "node_profile list \<Rightarrow> int \<Rightarrow> node_profile list" where
  "zero_bin_nodes batch_nodes scaling_cycle =
     filter (\<lambda>node. get_or (runtime node) scaling_cycle < scaling_cycle) batch_nodes"

definition subtract_zero_bin :: "rat \<times> rat \<Rightarrow> node_profile list \<Rightarrow> rat \<times> rat" where
  "subtract_zero_bin totals nodes =
     foldl (\<lambda>(total_cpu, total_mem) node.
              (total_cpu - get_or (cpuCapacity node) 0, total_mem - get_or (memoryCapacity node) 0))
       totals nodes"

definition batch_node_autoscaling ::
  "pod list \<Rightarrow> node_profile list \<Rightarrow> int \<Rightarrow> flavor list \<Rightarrow> (py_error + flavor list) option" where
  "batch_node_autoscaling pending_pods batch_nodes scaling_cycle vm_flavors =
     (let total_cpu = sum_list (map cpu_request pending_pods);
          total_mem = sum_list (map memory_request pending_pods);
          (total_cpu, total_mem) =
             subtract_zero_bin (total_cpu, total_mem) (zero_bin_nodes batch_nodes scaling_cycle)
      in if total_cpu \<le> 0 \<and> total_mem \<le> 0 then Some (Inr [])
         else greedy_autoscaling pending_pods vm_flavors)"

text \<open>
  \<open>scale_gke_node_pool\<close>. The workload type is mapped to a node pool; without a mapping
  the function returns. Inside the \<open>try\<close>, the call of \<open>build\<close> may raise; the next
  statement reads \<open>os.environ\<close>, and the module does not import \<open>os\<close>, so it raises
  \<open>NameError\<close>. The \<open>except Exception\<close> clause catches either, logs it and returns: the
  function never reaches \<open>setSize\<close>, gives its caller no result and raises nothing.
\<close>

definition lower_char :: "char \<Rightarrow> char" where
  "lower_char c =
     (let n = (of_char c :: nat) in if 65 \<le> n \<and> n \<le> 90 then char_of (n + 32) else c)"

definition lower :: "string \<Rightarrow> string" where
  "lower s = map lower_char s"

fun starts_with :: "string \<Rightarrow> string \<Rightarrow> bool" where
  "starts_with s [] = True"
| "starts_with [] (a # as) = False"
| "starts_with (c # cs) (a # as) = (c = a \<and> starts_with cs as)"

text \<open>\<open>py_in sub s\<close> is Python's \<open>sub in s\<close> on strings.\<close>

fun py_in :: "string \<Rightarrow> string \<Rightarrow> bool" where
  "py_in sub [] = (sub = [])"
| "py_in sub (c # cs) = (starts_with (c # cs) sub \<or> py_in sub cs)"

definition NODE_POOL_MAPPING :: "string \<Rightarrow> string option" where
  "NODE_POOL_MAPPING k =
     (if k = ''batch'' then Some ''batch-pool''
      else if k = ''long-running'' then Some ''longrunning-pool''
      else None)"

datatype scale_outcome = NoMapping | ScaleFailed py_error | ResizeTriggered int

record autoscale_request =
  asr_name :: string
  workloadType :: "string option"
  podNames :: "string list option"

text \<open>
  What the orchestrator and the cloud answer during one cycle of the Autoscaler: the pod
  read for a name (\<open>None\<close>: the call raises), the list of NodeProfile specs (\<open>None\<close>: the
  call raises), whether \<open>build\<close> raises, and whether the deletion of a request raises.
\<close>

record autoscaler_env =
  read_namespaced_pod :: "string \<Rightarrow> pod option"
  list_nodeprofiles :: "node_profile list option"
  build_raises :: bool
  delete_request_raises :: "string \<Rightarrow> bool"

definition scale_gke_node_pool :: "autoscaler_env \<Rightarrow> string \<Rightarrow> nat \<Rightarrow> scale_outcome" where
  "scale_gke_node_pool env workload_type needed_nodes =
     (case NODE_POOL_MAPPING (lower workload_type) of
        None \<Rightarrow> NoMapping
      | Some node_pool \<Rightarrow>
          if build_raises env then ScaleFailed ApiException else ScaleFailed NameError)"

text \<open>
  The body of the \<open>for req in autoscale_requests\<close> loop of \<open>autoscale_loop\<close>, on the
  list of stored AutoScaleRequests. A request none of whose pods is read as Pending is
  skipped (\<open>continue\<close>). Otherwise the flavors are selected (\<open>select_flavors\<close>, the
  \<open>if\<close> on the workload type), \<open>scale_gke_node_pool\<close> is called, and the request is
  deleted by name; a raising deletion is logged.
\<close>

definition resolve_pending :: "autoscaler_env \<Rightarrow> string list \<Rightarrow> pod list" where
  "resolve_pending env pod_names =
     concat (map (\<lambda>name. case read_namespaced_pod env name of
                             None \<Rightarrow> []
                           | Some p \<Rightarrow> if phase p = ''Pending'' then [p] else [])
                 pod_names)"

definition batch_profiles :: "autoscaler_env \<Rightarrow> node_profile list" where
  "batch_profiles env =
     (case list_nodeprofiles env of
        None \<Rightarrow> []
      | Some nodes_data \<Rightarrow>
          filter (\<lambda>node. py_in ''batch'' (lower (get_or (instanceName node) []))) nodes_data)"

datatype request_result = Skipped | Processed scale_outcome

definition delete_request ::
  "autoscaler_env \<Rightarrow> string \<Rightarrow> autoscale_request list \<Rightarrow> autoscale_request list" where
  "delete_request env name store =
     (if delete_request_raises env name then store
      else filter (\<lambda>r. asr_name r \<noteq> name) store)"

definition select_flavors ::
  "autoscaler_env \<Rightarrow> string \<Rightarrow> pod list \<Rightarrow> (py_error + flavor list) option" where
  "select_flavors env workload_type pending_pods =
     (if lower workload_type = ''long-running''
      then greedy_autoscaling pending_pods VM_FLAVORS
      else batch_node_autoscaling pending_pods (batch_profiles env) 300 VM_FLAVORS)"

definition process_request ::
  "autoscaler_env \<Rightarrow> autoscale_request \<Rightarrow> autoscale_request list
     \<Rightarrow> (py_error + request_result \<times> autoscale_request list) option" where
  "process_request env req store =
     (let workload_type = get_or (workloadType req) ''batch'';
          pod_names = get_or (podNames req) [];
          pending_pods = resolve_pending env pod_names
      in if pending_pods = [] then Some (Inr (Skipped, store))
         else
           case select_flavors env workload_type pending_pods of
             None \<Rightarrow> None
           | Some (Inl e) \<Rightarrow> Some (Inl e)
           | Some (Inr vms_needed) \<Rightarrow>
               Some (Inr (Processed (scale_gke_node_pool env workload_type (length vms_needed)),
                          delete_request env (asr_name req) store)))"

section \<open>Resource Profiler\<close>

text \<open>
  The Profiler does arithmetic on the values it reads from node and pod objects: it sums
  the containers' requests and subtracts the sum from the allocatable values. A value is a
  number or a string (a Kubernetes quantity such as \<open>"500m"\<close>); \<open>+\<close> and \<open>-\<close> between a
  number and a string raise \<open>TypeError\<close>. \<open>kn_capacity_cpu\<close> is the number that
  \<open>float(capacity['cpu'])\<close> yields, \<open>None\<close> when \<open>float\<close> raises.
\<close>

datatype pyval = PyNum rat | PyStr string

record container =
  ctr_name :: string
  req_cpu :: "pyval option"
  req_memory :: "pyval option"

record k8s_pod =
  kp_name :: string
  kp_namespace :: string
  kp_node_name :: string
  kp_phase :: string
  kp_labels :: "(string \<times> string) list"
  kp_containers :: "container list"

record k8s_node =
  kn_name :: string
  kn_labels :: "(string \<times> string) list"
  kn_capacity_cpu :: "rat option"
  kn_allocatable_cpu :: pyval
  kn_allocatable_memory :: pyval

text \<open>\<open>sum(...)\<close> of a generator, which starts from the integer 0 and adds from the left.\<close>

fun py_sum :: "rat \<Rightarrow> pyval list \<Rightarrow> py_error + rat" where
  "py_sum acc [] = Inr acc"
| "py_sum acc (PyNum x # vs) = py_sum (acc + x) vs"
| "py_sum acc (PyStr s # vs) = Inl TypeError"

definition py_sub :: "pyval \<Rightarrow> rat \<Rightarrow> py_error + rat" where
  "py_sub v used = (case v of PyNum a \<Rightarrow> Inr (a - used) | PyStr s \<Rightarrow> Inl TypeError)"

text \<open>\<open>int(x)\<close> of a float truncates towards zero.\<close>

definition py_int :: "rat \<Rightarrow> int" where
  "py_int x = (if 0 \<le> x then \<lfloor>x\<rfloor> else \<lceil>x\<rceil>)"

text \<open>
  \<open>container.resources.requests.get(key, 0)\<close> for the containers of the pods whose phase
  is \<open>Running\<close>, in the order of the generator.
\<close>

definition running_requests :: "(container \<Rightarrow> pyval option) \<Rightarrow> k8s_pod list \<Rightarrow> pyval list" where
  "running_requests key pods =
     concat (map (\<lambda>pod. if kp_phase pod = ''Running''
                         then map (\<lambda>c. get_or (key c) (PyNum 0)) (kp_containers pod)
                         else [])
                 pods)"

text \<open>
  The local variables of \<open>update_node_profiles\<close> that outlive the \<open>for node in nodes\<close>
  loop. \<open>name\<close> and \<open>labels\<close> are assigned for every node, before the test of the
  \<open>workload\<close> label; \<open>capacity\<close>, \<open>allocatable\<close>, \<open>used_cpu\<close> and \<open>used_memory\<close> only
  for a node that bears the label. \<open>None\<close> is a variable not yet assigned.
\<close>

record measured =
  m_capacity_cpu :: "rat option"
  m_allocatable_cpu :: pyval
  m_allocatable_memory :: pyval
  m_used_cpu :: rat
  m_used_memory :: rat

record profiler_locals =
  l_name :: "string option"
  l_labels :: "(string \<times> string) list"
  l_measured :: "measured option"

definition no_locals :: profiler_locals where
  "no_locals = \<lparr>l_name = None, l_labels = [], l_measured = None\<rparr>"

definition has_workload_label :: "k8s_node \<Rightarrow> bool" where
  "has_workload_label node \<longleftrightarrow> map_of (kn_labels node) ''workload'' \<noteq> None"

fun scan_nodes ::
  "(string \<Rightarrow> k8s_pod list) \<Rightarrow> profiler_locals \<Rightarrow> k8s_node list \<Rightarrow> py_error + profiler_locals" where
  "scan_nodes pods_on l [] = Inr l"
| "scan_nodes pods_on l (node # nodes) =
     (let l1 = l\<lparr>l_name := Some (kn_name node), l_labels := kn_labels node\<rparr>
      in if \<not> has_workload_label node then scan_nodes pods_on l1 nodes
         else
           case py_sum 0 (running_requests req_cpu (pods_on (kn_name node))) of
             Inl e \<Rightarrow> Inl e
           | Inr used_cpu \<Rightarrow>
               (case py_sum 0 (running_requests req_memory (pods_on (kn_name node))) of
                  Inl e \<Rightarrow> Inl e
                | Inr used_memory \<Rightarrow>
                    scan_nodes pods_on
                      (l1\<lparr>l_measured :=
                            Some \<lparr>m_capacity_cpu = kn_capacity_cpu node,
                                  m_allocatable_cpu = kn_allocatable_cpu node,
                                  m_allocatable_memory = kn_allocatable_memory node,
                                  m_used_cpu = used_cpu, m_used_memory = used_memory\<rparr>\<rparr>)
                      nodes))"

text \<open>
  The statements after the loop (they are indented as the loop itself, so they run once
  per cycle): the available resources and the body of the NodeProfile. Reading a variable
  that no iteration assigned raises \<open>UnboundLocalError\<close>, a \<open>NameError\<close>. The body
  writes \<open>memoryCapacity\<close> as \<open>memory_available\<close> and \<open>runtime\<close> as 0.
\<close>

definition make_body :: "profiler_locals \<Rightarrow> py_error + string \<times> node_profile" where
  "make_body l =
     (case l_measured l of
        None \<Rightarrow> Inl NameError
      | Some m \<Rightarrow>
          (case py_sub (m_allocatable_cpu m) (m_used_cpu m) of
             Inl e \<Rightarrow> Inl e
           | Inr cpu_available \<Rightarrow>
               (case py_sub (m_allocatable_memory m) (m_used_memory m) of
                  Inl e \<Rightarrow> Inl e
                | Inr memory_available \<Rightarrow>
                    (case l_name l of
                       None \<Rightarrow> Inl NameError
                     | Some name \<Rightarrow>
                         (case m_capacity_cpu m of
                            None \<Rightarrow> Inl ValueError
                          | Some c \<Rightarrow>
                              Inr (name,
                                \<lparr>instanceName = Some name,
                                 instanceType =
                                   Some (get_or (map_of (l_labels l) ''beta.kubernetes.io/instance-type'')
                                           ''unknown''),
                                 cpuCapacity = Some (of_int (py_int (c * 1000))),
                                 memoryCapacity = Some memory_available,
                                 cpuAvailable = Some cpu_available,
                                 memoryAvailable = Some memory_available,
                                 runtime = Some 0\<rparr>))))))"

text \<open>
  The upsert on the stored NodeProfiles, a list of named specs: when a profile of that
  name is stored, \<open>replace_namespaced_custom_object\<close> puts the body in its place;
  otherwise the read raises \<open>ApiException\<close> and the body is created.
\<close>

definition upsert ::
  "(string \<times> node_profile) list \<Rightarrow> string \<Rightarrow> node_profile \<Rightarrow> (string \<times> node_profile) list" where
  "upsert store name body =
     (if name \<in> fst ` set store
      then map (\<lambda>(k, v). if k = name then (k, body) else (k, v)) store
      else store @ [(name, body)])"

text \<open>
  One cycle of \<open>update_node_profiles\<close>, for orchestrator calls that answer. \<open>Inl\<close> is an
  exception other than \<open>ApiException\<close>: nothing catches it, and nothing is written.
\<close>

definition update_node_profiles ::
  "k8s_node list \<Rightarrow> (string \<Rightarrow> k8s_pod list) \<Rightarrow> (string \<times> node_profile) list
     \<Rightarrow> py_error + (string \<times> node_profile) list" where
  "update_node_profiles nodes pods_on store =
     (case scan_nodes pods_on no_locals nodes of
        Inl e \<Rightarrow> Inl e
      | Inr l \<Rightarrow>
          (case make_body l of
             Inl e \<Rightarrow> Inl e
           | Inr (name, body) \<Rightarrow> Inr (upsert store name body)))"

text \<open>
  The stored NodeProfiles after a cycle: those the cycle returns, and the ones stored
  before it when the cycle ends in an exception.
\<close>

definition profiles_after ::
  "k8s_node list \<Rightarrow> (string \<Rightarrow> k8s_pod list) \<Rightarrow> (string \<times> node_profile) list
     \<Rightarrow> (string \<times> node_profile) list" where
  "profiles_after nodes pods_on store =
     (case update_node_profiles nodes pods_on store of Inl e \<Rightarrow> store | Inr store' \<Rightarrow> store')"


section \<open>Task Packer: one scheduling cycle\<close>

text \<open>
  The body of the \<open>while True\<close> loop of \<open>schedule_pods\<close>. The state is what the Packer
  writes: the bindings committed, the AutoScaleRequests stored, and the messages printed.
  The orchestrator answers through \<open>packer_env\<close>: whether the binding of a pod to a node
  raises, whether the creation of a request raises for a reason of its own, and the second
  (\<open>int(time.time())\<close>) at which the request for a pod is built. The orchestrator also
  refuses to create an object under a name that is already stored; the Packer catches
  every exception of the two calls and prints it.
\<close>

datatype packer_event =
    Scheduled string string
  | ErrorBinding string
  | NoSuitableNode string
  | AutoscalingRequested string "string list"
  | FailedToCreate string "string list"

record packer_state =
  bindings :: "(string \<times> string) list"
  requests :: "autoscale_request list"
  printed :: "packer_event list"

record packer_env =
  bind_raises :: "string \<Rightarrow> string \<Rightarrow> bool"
  create_raises :: "string \<Rightarrow> bool"
  time_at :: "string \<Rightarrow> nat"

definition get_pending_pods :: "pod list \<Rightarrow> pod list" where
  "get_pending_pods pods =
     filter (\<lambda>p. scheduler_name p = ''htas-scheduler'') (filter (\<lambda>p. phase p = ''Pending'') pods)"

text \<open>\<open>str(n)\<close> of a natural number, in decimal.\<close>

definition digit_char :: "nat \<Rightarrow> char" where
  "digit_char d = ''0123456789'' ! d"

function show_nat :: "nat \<Rightarrow> string" where
  "show_nat n = (if n < 10 then [digit_char n] else show_nat (n div 10) @ [digit_char (n mod 10)])"
  by pat_completeness auto
termination
  by (relation "measure id") auto

declare show_nat.simps [simp del]

definition request_name :: "nat \<Rightarrow> string \<Rightarrow> string" where
  "request_name seconds workload_type = ''asr-'' @ show_nat seconds @ ''-'' @ workload_type"

definition trigger_autoscaling ::
  "packer_env \<Rightarrow> nat \<Rightarrow> string \<Rightarrow> pod list \<Rightarrow> packer_state \<Rightarrow> packer_state" where
  "trigger_autoscaling env seconds workload_type pods st =
     (let pod_names = map pod_name pods;
          name = request_name seconds workload_type;
          body = \<lparr>asr_name = name, workloadType = Some workload_type, podNames = Some pod_names\<rparr>
      in if create_raises env name \<or> name \<in> asr_name ` set (requests st)
         then st\<lparr>printed := printed st @ [FailedToCreate name pod_names]\<rparr>
         else st\<lparr>requests := requests st @ [body],
                 printed := printed st @ [AutoscalingRequested workload_type pod_names]\<rparr>)"

definition packer_long_running_nodes :: "node_profile list \<Rightarrow> node_profile list" where
  "packer_long_running_nodes node_profiles =
     filter (\<lambda>spec. py_in ''longrunning'' (lower (get_or (instanceName spec) []))) node_profiles"

definition packer_batch_nodes :: "node_profile list \<Rightarrow> node_profile list" where
  "packer_batch_nodes node_profiles =
     filter (\<lambda>spec. \<not> py_in ''longrunning'' (lower (get_or (instanceName spec) []))
                   \<and> py_in ''batch'' (lower (get_or (instanceName spec) []))) node_profiles"

definition pod_type :: "pod \<Rightarrow> string" where
  "pod_type p = lower (get_or (workload_type_label p) ''batch'')"

definition select_target :: "pod \<Rightarrow> node_profile list \<Rightarrow> py_error + string option" where
  "select_target p node_profiles =
     (if pod_type p = ''long-running'' then bfd_algorithm p (packer_long_running_nodes node_profiles)
      else time_bin_bfd p (packer_batch_nodes node_profiles) 300)"

definition place_pod ::
  "packer_env \<Rightarrow> node_profile list \<Rightarrow> packer_state \<Rightarrow> pod \<Rightarrow> py_error + packer_state" where
  "place_pod env node_profiles st p =
     (case select_target p node_profiles of
        Inl e \<Rightarrow> Inl e
      | Inr target \<Rightarrow>
          if target \<noteq> None \<and> target \<noteq> Some [] then
            (if bind_raises env (pod_name p) (the target)
             then Inr (st\<lparr>printed := printed st @ [ErrorBinding (pod_name p)]\<rparr>)
             else Inr (st\<lparr>bindings := bindings st @ [(pod_name p, the target)],
                          printed := printed st @ [Scheduled (pod_name p) (the target)]\<rparr>))
          else
            Inr (trigger_autoscaling env (time_at env (pod_name p)) (pod_type p) [p]
                   (st\<lparr>printed := printed st @ [NoSuitableNode (pod_name p)]\<rparr>)))"

fun place_pods ::
  "packer_env \<Rightarrow> node_profile list \<Rightarrow> packer_state \<Rightarrow> pod list \<Rightarrow> py_error + packer_state" where
  "place_pods env node_profiles st [] = Inr st"
| "place_pods env node_profiles st (p # ps) =
     (case place_pod env node_profiles st p of
        Inl e \<Rightarrow> Inl e
      | Inr st' \<Rightarrow> place_pods env node_profiles st' ps)"

definition schedule_cycle ::
  "packer_env \<Rightarrow> pod list \<Rightarrow> node_profile list \<Rightarrow> packer_state \<Rightarrow> py_error + packer_state" where
  "schedule_cycle env pods node_profiles st =
     (let pending_pods = get_pending_pods pods
      in if pending_pods = [] then Inr st
         else place_pods env node_profiles st pending_pods)"

text \<open>
  What the invariant of the specification asks of a pod after a cycle: it is bound, or a
  stored AutoScaleRequest of its workload class names it.
\<close>

definition bound_in :: "packer_state \<Rightarrow> pod \<Rightarrow> bool" where
  "bound_in st p \<longleftrightarrow> pod_name p \<in> fst ` set (bindings st)"

definition named_in :: "packer_state \<Rightarrow> pod \<Rightarrow> bool" where
  "named_in st p \<longleftrightarrow>
     list_ex (\<lambda>r. workloadType r = Some (pod_type p) \<and> pod_name p \<in> set (get_or (podNames r) []))
       (requests st)"

text \<open>
  A state grows into another when nothing committed, stored or printed is lost. A pod is
  settled in a state when the call the Packer chose for it has left its trace: for a pod
  with a candidate node the binding, or the message of a failed binding; for a pod without
  one the stored request that names it, or the message of a failed creation.
\<close>

definition grows :: "packer_state \<Rightarrow> packer_state \<Rightarrow> bool" where
  "grows st st' \<longleftrightarrow> set (bindings st) \<subseteq> set (bindings st')
     \<and> set (requests st) \<subseteq> set (requests st') \<and> set (printed st) \<subseteq> set (printed st')"

definition settled :: "packer_env \<Rightarrow> node_profile list \<Rightarrow> packer_state \<Rightarrow> pod \<Rightarrow> bool" where
  "settled env node_profiles st p \<longleftrightarrow>
     (case select_target p node_profiles of
        Inl e \<Rightarrow> False
      | Inr target \<Rightarrow>
          if target \<noteq> None \<and> target \<noteq> Some [] then
            (pod_name p, the target) \<in> set (bindings st)
            \<or> ErrorBinding (pod_name p) \<in> set (printed st)
          else
            named_in st p
            \<or> FailedToCreate (request_name (time_at env (pod_name p)) (pod_type p)) [pod_name p]
                 \<in> set (printed st))"

text \<open>
  A pod is unplaced when the selection gives no node name, or the empty one. The request
  the Packer builds for an unplaced pod has the name of the second and of the pod's
  workload class, and names that pod alone.
\<close>

definition unplaced :: "node_profile list \<Rightarrow> pod \<Rightarrow> bool" where
  "unplaced node_profiles p \<longleftrightarrow>
     select_target p node_profiles = Inr None \<or> select_target p node_profiles = Inr (Some [])"

definition request_for :: "packer_env \<Rightarrow> pod \<Rightarrow> autoscale_request" where
  "request_for env p =
     \<lparr>asr_name = request_name (time_at env (pod_name p)) (pod_type p),
      workloadType = Some (pod_type p), podNames = Some [pod_name p]\<rparr>"

section \<open>Instance Cleaner: migration\<close>

text \<open>
  \<open>migrate_container\<close> on the list of the cluster's pods. The outcome of each step comes
  from \<open>migration_env\<close>: the four \<open>kubectl\<close> commands run with \<open>check=True\<close> and raise on a
  failure, as the two calls of the orchestrator may. The \<open>except Exception\<close> clause turns
  every exception of the six steps into the result \<open>False\<close>; the name of the first
  container is read before the \<open>try\<close>, and a pod without containers raises \<open>IndexError\<close>.
  The replica is created with restart policy \<open>Never\<close> on the target node.
\<close>

record migration_env =
  checkpoint_raises :: bool
  copy_out_raises :: bool
  create_pod_raises :: bool
  copy_in_raises :: bool
  restore_raises :: bool
  delete_pod_raises :: bool

definition replica :: "k8s_pod \<Rightarrow> string \<Rightarrow> k8s_pod" where
  "replica p target =
     \<lparr>kp_name = kp_name p @ ''-migrated'', kp_namespace = kp_namespace p,
      kp_node_name = target, kp_phase = ''Pending'', kp_labels = kp_labels p,
      kp_containers = kp_containers p\<rparr>"

definition delete_namespaced_pod :: "string \<Rightarrow> string \<Rightarrow> k8s_pod list \<Rightarrow> k8s_pod list" where
  "delete_namespaced_pod name namespace cluster =
     filter (\<lambda>q. \<not> (kp_name q = name \<and> kp_namespace q = namespace)) cluster"

definition migrate_container ::
  "migration_env \<Rightarrow> k8s_pod list \<Rightarrow> k8s_pod \<Rightarrow> string \<Rightarrow> (py_error + bool) \<times> k8s_pod list" where
  "migrate_container env cluster p target =
     (case kp_containers p of
        [] \<Rightarrow> (Inl IndexError, cluster)
      | container # _ \<Rightarrow>
          if checkpoint_raises env then (Inr False, cluster)
          else if copy_out_raises env then (Inr False, cluster)
          else if create_pod_raises env then (Inr False, cluster)
          else
            let cluster1 = cluster @ [replica p target]
            in if copy_in_raises env then (Inr False, cluster1)
               else if restore_raises env then (Inr False, cluster1)
               else if delete_pod_raises env then (Inr False, cluster1)
               else (Inr True, delete_namespaced_pod (kp_name p) (kp_namespace p) cluster1))"

section \<open>Concrete scenarios\<close>

definition mk_node :: "string \<Rightarrow> rat \<Rightarrow> rat \<Rightarrow> int option \<Rightarrow> node_profile" where
  "mk_node nm c m r =
     \<lparr>instanceName = Some nm, instanceType = None, cpuCapacity = None, memoryCapacity = None,
      cpuAvailable = Some c, memoryAvailable = Some m, runtime = r\<rparr>"

definition mk_pod :: "string \<Rightarrow> string \<Rightarrow> rat \<Rightarrow> rat \<Rightarrow> int option \<Rightarrow> pod" where
  "mk_pod nm wt c m r =
     \<lparr>pod_name = nm, pod_namespace = ''default'', scheduler_name = ''htas-scheduler'',
      phase = ''Pending'', workload_type_label = Some wt, runtime_annotation = r,
      cpu_request = c, memory_request = m\<rparr>"

text \<open>Long-running placement: two nodes that both fit, \<open>lr-b\<close> with the tighter memory.\<close>

definition lr_task :: pod where
  "lr_task = mk_pod ''task-1'' ''long-running'' 1 2000 None"

definition lr_nodes :: "node_profile list" where
  "lr_nodes = [mk_node ''lr-a'' 4 8000 None, mk_node ''lr-b'' 4 4000 None]"

text \<open>
  Batch placement with a scaling cycle of 300 s: a task of runtime 900 (bin 3) and three
  nodes that all fit, of runtime-age 60 (bin 0), 950 (bin 3) and 1400 (bin 4).
\<close>

definition batch_task :: pod where
  "batch_task = mk_pod ''job-1'' ''batch'' 1 2000 (Some 900)"

definition batch_nodes3 :: "node_profile list" where
  "batch_nodes3 =
     [mk_node ''n1'' 4 8000 (Some 60), mk_node ''n2'' 4 8000 (Some 950),
      mk_node ''n3'' 4 8000 (Some 1400)]"

text \<open>A batch node profile without the \<open>runtime\<close> field, beside one of runtime-age 60.\<close>

definition ageless_node :: node_profile where
  "ageless_node = mk_node ''batch-new'' 4 8000 None"

definition ageless_nodes :: "node_profile list" where
  "ageless_nodes = [mk_node ''batch-old'' 4 8000 (Some 60), ageless_node]"

text \<open>
  Greedy flavor selection: pending tasks whose requests sum to 4 CPUs and 16 units of
  memory, and a batch node of runtime-age 100 with capacity (2, 8).
\<close>

definition demand_pods :: "pod list" where
  "demand_pods = [mk_pod ''job-a'' ''batch'' 4 16 None]"

definition fresh_batch_node :: node_profile where
  "fresh_batch_node =
     \<lparr>instanceName = Some ''batch-node-1'', instanceType = None, cpuCapacity = Some 2,
      memoryCapacity = Some 8, cpuAvailable = Some 2, memoryAvailable = Some 8,
      runtime = Some 100\<rparr>"

text \<open>
  A stored long-running AutoScaleRequest that names one Pending pod. The orchestrator
  answers every call, the deletion of the request included; the cloud does not: building
  its client raises, so the node pool is not resized.
\<close>

definition svc_pod :: pod where
  "svc_pod = mk_pod ''svc-1'' ''long-running'' 4 16 None"

definition svc_request :: autoscale_request where
  "svc_request =
     \<lparr>asr_name = ''asr-1700000000-long-running'', workloadType = Some ''long-running'',
      podNames = Some [''svc-1'']\<rparr>"

definition svc_env :: autoscaler_env where
  "svc_env =
     \<lparr>read_namespaced_pod = (\<lambda>name. if name = ''svc-1'' then Some svc_pod else None),
      list_nodeprofiles = Some [], build_raises = True,
      delete_request_raises = (\<lambda>name. False)\<rparr>"

text \<open>
  Profiling: a batch node as the Kubernetes client reports it, with quantity strings for
  its allocatable resources (\<open>float\<close> turns its capacity of \<open>'2'\<close> CPUs into 2), whose
  stored profile has runtime-age 950; no pod runs on it, or one Running pod with requests
  of its own.
\<close>

definition profiled_node :: k8s_node where
  "profiled_node =
     \<lparr>kn_name = ''batch-node-1'', kn_labels = [(''workload'', ''batch'')],
      kn_capacity_cpu = Some 2, kn_allocatable_cpu = PyStr ''1930m'',
      kn_allocatable_memory = PyStr ''5922412Ki''\<rparr>"

definition aged_store :: "(string \<times> node_profile) list" where
  "aged_store =
     [(''batch-node-1'',
       \<lparr>instanceName = Some ''batch-node-1'', instanceType = Some ''e2-standard-2'',
        cpuCapacity = Some 2000, memoryCapacity = Some 5783, cpuAvailable = Some 1,
        memoryAvailable = Some 3735, runtime = Some 950\<rparr>)]"

definition busy_pod :: k8s_pod where
  "busy_pod =
     \<lparr>kp_name = ''job-7'', kp_namespace = ''default'', kp_node_name = ''batch-node-1'',
      kp_phase = ''Running'', kp_labels = [(''workload-type'', ''batch'')],
      kp_containers = [\<lparr>ctr_name = ''main'', req_cpu = Some (PyStr ''500m''),
                        req_memory = Some (PyStr ''2Gi'')\<rparr>]\<rparr>"

definition no_pods_on :: "string \<Rightarrow> k8s_pod list" where
  "no_pods_on node_name = []"

definition busy_pods_on :: "string \<Rightarrow> k8s_pod list" where
  "busy_pods_on node_name = (if node_name = ''batch-node-1'' then [busy_pod] else [])"

text \<open>
  Migration: a Running batch pod on \<open>bn-1\<close>, and a migration to \<open>bn-2\<close> whose restore
  step fails after the replica has been created.
\<close>

definition running_job :: k8s_pod where
  "running_job =
     \<lparr>kp_name = ''job-7'', kp_namespace = ''default'', kp_node_name = ''bn-1'',
      kp_phase = ''Running'', kp_labels = [(''workload-type'', ''batch'')],
      kp_containers = [\<lparr>ctr_name = ''main'', req_cpu = Some (PyNum (1 / 2)),
                        req_memory = Some (PyNum 2048)\<rparr>]\<rparr>"

definition restore_fails :: migration_env where
  "restore_fails =
     \<lparr>checkpoint_raises = False, copy_out_raises = False, create_pod_raises = False,
      copy_in_raises = False, restore_raises = True, delete_pod_raises = False\<rparr>"

text \<open>
  A Packer cycle with two Pending batch tasks, no node profile, and both requests built in
  the same second; every call of the orchestrator answers.
\<close>

definition same_second_env :: packer_env where
  "same_second_env =
     \<lparr>bind_raises = (\<lambda>pod node. False), create_raises = (\<lambda>name. False),
      time_at = (\<lambda>pod. 1700000000)\<rparr>"

definition job_1 :: pod where
  "job_1 = mk_pod ''job-1'' ''batch'' 1 2000 None"

definition job_2 :: pod where
  "job_2 = mk_pod ''job-2'' ''batch'' 1 2000 None"

definition empty_state :: packer_state where
  "empty_state = \<lparr>bindings = [], requests = [], printed = []\<rparr>"

definition after_same_second :: packer_state where
  "after_same_second =
     \<lparr>bindings = [],
      requests = [\<lparr>asr_name = ''asr-1700000000-batch'', workloadType = Some ''batch'',
                   podNames = Some [''job-1'']\<rparr>],
      printed = [NoSuitableNode ''job-1'', AutoscalingRequested ''batch'' [''job-1''],
                 NoSuitableNode ''job-2'', FailedToCreate ''asr-1700000000-batch'' [''job-2'']]\<rparr>"

text \<open>
  A Packer cycle with a Pending long-running task, for which the long-running pool has a
  node, and a Pending batch task, for which the batch pool has none.
\<close>

definition pool_profiles :: "node_profile list" where
  "pool_profiles = [mk_node ''longrunning-node-1'' 4 8000 None]"

definition after_mixed :: packer_state where
  "after_mixed =
     \<lparr>bindings = [(''task-1'', ''longrunning-node-1'')],
      requests = [\<lparr>asr_name = ''asr-1700000000-batch'', workloadType = Some ''batch'',
                   podNames = Some [''job-1'']\<rparr>],
      printed = [Scheduled ''task-1'' ''longrunning-node-1'', NoSuitableNode ''job-1'',
                 AutoscalingRequested ''batch'' [''job-1'']]\<rparr>"

section \<open>Verification: Best-Fit Decreasing\<close>

lemma hd_insort_key:
  "hd (insort_key f x ys) = (if ys = [] \<or> f x \<le> f (hd ys) then x else hd ys)"
  by (cases ys) auto

lemma sort_key_eq_Nil [simp]: "sort_key f xs = [] \<longleftrightarrow> xs = []"
  by (metis length_0_conv length_sort)

text \<open>
  The head of a stably sorted list is the first element of the input whose key is least:
  every key is at least its key, and every earlier key is strictly greater.
\<close>

lemma hd_sort_key_first_min:
  "xs \<noteq> [] \<Longrightarrow>
   \<exists>i<length xs. hd (sort_key f xs) = xs ! i
      \<and> (\<forall>j<length xs. f (xs ! i) \<le> f (xs ! j))
      \<and> (\<forall>j<i. f (xs ! i) < f (xs ! j))"
proof (induction xs)
  case Nil
  then show ?case by simp
next
  case (Cons x xs)
  show ?case
  proof (cases "xs = []")
    case True
    then show ?thesis by simp
  next
    case False
    from Cons.IH [OF False] obtain i where i: "i < length xs"
      and h: "hd (sort_key f xs) = xs ! i"
      and mn: "\<forall>j<length xs. f (xs ! i) \<le> f (xs ! j)"
      and fst: "\<forall>j<i. f (xs ! i) < f (xs ! j)" by blast
    show ?thesis
    proof (cases "f x \<le> f (xs ! i)")
      case True
      have "hd (sort_key f (x # xs)) = x"
        using True h False by (simp add: hd_insort_key)
      moreover have "\<forall>j<length (x # xs). f x \<le> f ((x # xs) ! j)"
        using True mn by (auto simp: nth_Cons split: nat.splits)
      ultimately show ?thesis
        by (intro exI [of _ 0]) simp
    next
      case later: False
      have "hd (sort_key f (x # xs)) = xs ! i"
        using later h False by (simp add: hd_insort_key)
      moreover have "\<forall>j<length (x # xs). f (xs ! i) \<le> f ((x # xs) ! j)"
        using later mn by (auto simp: nth_Cons split: nat.splits)
      moreover have "\<forall>j<Suc i. f (xs ! i) < f ((x # xs) ! j)"
        using later fst by (auto simp: nth_Cons split: nat.splits)
      ultimately show ?thesis
        using i by (intro exI [of _ "Suc i"]) simp
    qed
  qed
qed

text \<open>
  C2. For every task and every candidate list \<open>N\<close>, with \<open>N'\<close> the nodes of \<open>N\<close> whose
  available CPU and memory cover the task's requests (in the order of \<open>N\<close>): when \<open>N'\<close> is
  empty BFD returns none; otherwise it returns the instance name of a node of \<open>N'\<close>, so one
  whose available CPU and memory are not below the requests, whose \<open>memoryAvailable\<close> is least
  in \<open>N'\<close>, and which comes first in \<open>N'\<close> among the nodes of that least value.
\<close>

theorem bfd_algorithm_best_fit:
  "(filter (fits p) N = [] \<longrightarrow> bfd_algorithm p N = Inr None) \<and>
   (filter (fits p) N \<noteq> [] \<longrightarrow>
      (\<exists>i<length (filter (fits p) N).
          bfd_algorithm p N = subscript_instanceName (filter (fits p) N ! i)
        \<and> filter (fits p) N ! i \<in> set N
        \<and> get_or (cpuAvailable (filter (fits p) N ! i)) 0 \<ge> cpu_request p
        \<and> get_or (memoryAvailable (filter (fits p) N ! i)) 0 \<ge> memory_request p
        \<and> (\<forall>j<length (filter (fits p) N).
              mem_key (filter (fits p) N ! i) \<le> mem_key (filter (fits p) N ! j))
        \<and> (\<forall>j<i. mem_key (filter (fits p) N ! i) < mem_key (filter (fits p) N ! j))))"
proof (intro conjI impI)
  assume "filter (fits p) N = []"
  then show "bfd_algorithm p N = Inr None"
    by (simp add: bfd_algorithm_def)
next
  let ?N' = "filter (fits p) N"
  assume ne: "?N' \<noteq> []"
  from hd_sort_key_first_min [OF ne, of mem_key] obtain i where i: "i < length ?N'"
    and h: "hd (sort_key mem_key ?N') = ?N' ! i"
    and mn: "\<forall>j<length ?N'. mem_key (?N' ! i) \<le> mem_key (?N' ! j)"
    and fst: "\<forall>j<i. mem_key (?N' ! i) < mem_key (?N' ! j)" by blast
  have mem: "?N' ! i \<in> set ?N'" using i by (rule nth_mem)
  then have inN: "?N' ! i \<in> set N" and f: "fits p (?N' ! i)" by simp_all
  have "sort_key mem_key ?N' \<noteq> []" using ne by simp
  then have "bfd_algorithm p N = subscript_instanceName (hd (sort_key mem_key ?N'))"
    by (cases "sort_key mem_key ?N'") (simp_all add: bfd_algorithm_def Let_def)
  with h have r: "bfd_algorithm p N = subscript_instanceName (?N' ! i)" by simp
  from f have "get_or (cpuAvailable (?N' ! i)) 0 \<ge> cpu_request p"
     and "get_or (memoryAvailable (?N' ! i)) 0 \<ge> memory_request p"
    by (simp_all add: fits_def)
  with i r inN mn fst
  show "\<exists>i<length ?N'.
          bfd_algorithm p N = subscript_instanceName (?N' ! i)
        \<and> ?N' ! i \<in> set N
        \<and> get_or (cpuAvailable (?N' ! i)) 0 \<ge> cpu_request p
        \<and> get_or (memoryAvailable (?N' ! i)) 0 \<ge> memory_request p
        \<and> (\<forall>j<length ?N'. mem_key (?N' ! i) \<le> mem_key (?N' ! j))
        \<and> (\<forall>j<i. mem_key (?N' ! i) < mem_key (?N' ! j))"
    by blast
qed

lemma lr_nodes_fit: "filter (fits lr_task) lr_nodes = lr_nodes"
  by (simp add: lr_task_def lr_nodes_def mk_pod_def mk_node_def fits_def get_or_def)

text \<open>
  The theorem at the long-running scenario: both nodes fit, and the node it speaks of is
  \<open>lr-b\<close>, of index 1, the only one with the least available memory.
\<close>

theorem bfd_algorithm_best_fit_witness:
  "filter (fits lr_task) lr_nodes \<noteq> []
   \<and> bfd_algorithm lr_task lr_nodes = Inr (Some ''lr-b'')
   \<and> (\<exists>i<length (filter (fits lr_task) lr_nodes).
         bfd_algorithm lr_task lr_nodes = subscript_instanceName (filter (fits lr_task) lr_nodes ! i)
       \<and> (\<forall>j<length (filter (fits lr_task) lr_nodes).
             mem_key (filter (fits lr_task) lr_nodes ! i) \<le> mem_key (filter (fits lr_task) lr_nodes ! j)))"
proof -
  have ne: "filter (fits lr_task) lr_nodes \<noteq> []"
    by (simp add: lr_nodes_fit) (simp add: lr_nodes_def)
  have v: "bfd_algorithm lr_task lr_nodes = Inr (Some ''lr-b'')"
    by (simp add: bfd_algorithm_def lr_task_def lr_nodes_def mk_pod_def mk_node_def fits_def
          get_or_def mem_key_def subscript_instanceName_def)
  from bfd_algorithm_best_fit [of lr_task lr_nodes] ne v show ?thesis
    by blast
qed

section \<open>Verification: Time-Bin BFD\<close>

text \<open>
  The dictionary built by the loop over the nodes has one key for each bin that holds a
  node, and maps a bin to its nodes in their input order.
\<close>

lemma map_fst_setdefault_append:
  "map fst (setdefault_append bins k n) =
     (if k \<in> set (map fst bins) then map fst bins else map fst bins @ [k])"
  by (induction bins k n rule: setdefault_append.induct) auto

lemma map_of_setdefault_append:
  "map_of (setdefault_append bins k n) b =
     (if b = k then Some (get_or (map_of bins k) [] @ [n]) else map_of bins b)"
  by (induction bins k n rule: setdefault_append.induct) (auto simp: get_or_def)

lemma build_bins_snoc:
  "build_bins (nodes @ [n]) S = setdefault_append (build_bins nodes S) (node_bin n S) n"
  by (simp add: build_bins_def node_bin_def)

lemma build_bins_Nil [simp]: "build_bins [] S = []"
  by (simp add: build_bins_def)

lemma keys_build_bins:
  "distinct (map fst (build_bins nodes S)) \<and>
   set (map fst (build_bins nodes S)) = (\<lambda>n. node_bin n S) ` set nodes"
proof (induction nodes rule: rev_induct)
  case Nil
  show ?case by simp
next
  case (snoc n nodes)
  then show ?case
    by (auto simp: build_bins_snoc map_fst_setdefault_append)
qed

lemma map_of_build_bins:
  "map_of (build_bins nodes S) b =
     (if filter (\<lambda>n. node_bin n S = b) nodes = [] then None
      else Some (filter (\<lambda>n. node_bin n S = b) nodes))"
proof (induction nodes rule: rev_induct)
  case Nil
  show ?case by simp
next
  case (snoc n nodes)
  then show ?case
    by (auto simp: build_bins_snoc map_of_setdefault_append get_or_def)
qed

lemma sort_filter_keys:
  assumes "distinct ks" and "set ks = set bs"
  shows "sort (filter P ks) = sort (remdups (filter P bs))"
proof (rule sorted_distinct_set_unique)
  show "sorted (sort (filter P ks))" by simp
  show "distinct (sort (filter P ks))" using assms(1) by simp
  show "sorted (sort (remdups (filter P bs)))" by simp
  show "distinct (sort (remdups (filter P bs)))" by simp
  show "set (sort (filter P ks)) = set (sort (remdups (filter P bs)))"
    using assms(2) by auto
qed

lemma bin_order_build_bins:
  "bin_order tb (build_bins nodes S) = spec_bin_order tb nodes S"
proof -
  have d: "distinct (map fst (build_bins nodes S))"
    and s: "set (map fst (build_bins nodes S)) = set (map (\<lambda>n. node_bin n S) nodes)"
    using keys_build_bins [of nodes S] by simp_all
  show ?thesis
    unfolding bin_order_def spec_bin_order_def
    by (simp add: sort_filter_keys [OF d s])
qed

lemma bfd_algorithm_Nil [simp]: "bfd_algorithm p [] = Inr None"
  by (simp add: bfd_algorithm_def)

lemma bfd_algorithm_name:
  assumes "bfd_algorithm p N = Inr (Some s)"
  shows "\<exists>n\<in>set N. instanceName n = Some s"
proof -
  have ne: "filter (fits p) N \<noteq> []"
    using assms by (auto simp: bfd_algorithm_def)
  then have "sort_key mem_key (filter (fits p) N) \<noteq> []"
    by (metis length_0_conv length_sort)
  then obtain n ns where c: "sort_key mem_key (filter (fits p) N) = n # ns"
    by (cases "sort_key mem_key (filter (fits p) N)") auto
  then have "n \<in> set (sort_key mem_key (filter (fits p) N))" by simp
  then have "n \<in> set N" by simp
  moreover have "instanceName n = Some s"
    using assms c by (auto simp: bfd_algorithm_def subscript_instanceName_def split: option.splits)
  ultimately show ?thesis by blast
qed

lemma search_bins_first_candidate:
  assumes "\<forall>n\<in>set nodes. instanceName n \<noteq> Some []"
  shows "search_bins p (build_bins nodes S) bs =
         first_candidate (map (\<lambda>b. bfd_algorithm p (filter (\<lambda>n. node_bin n S = b) nodes)) bs)"
proof (induction bs)
  case Nil
  show ?case by simp
next
  case (Cons b bs)
  let ?g = "filter (\<lambda>n. node_bin n S = b) nodes"
  show ?case
  proof (cases "bfd_algorithm p ?g")
    case (Inl e)
    then have "?g \<noteq> []" by auto
    with Inl show ?thesis by (simp add: map_of_build_bins)
  next
    case (Inr r)
    show ?thesis
    proof (cases r)
      case None
      with Inr Cons show ?thesis by (simp add: map_of_build_bins)
    next
      case (Some s)
      with Inr have "\<exists>n\<in>set ?g. instanceName n = Some s"
        by (intro bfd_algorithm_name) simp
      with assms have "s \<noteq> []" by auto
      moreover have "?g \<noteq> []" using Inr Some by auto
      ultimately show ?thesis using Inr Some by (simp add: map_of_build_bins)
    qed
  qed
qed

text \<open>
  C1. For a scaling cycle other than zero and nodes whose instance name is not the empty
  string (the Packer's batch pool holds only nodes whose name contains \<open>batch\<close>), the
  scheduler computes the task's bin as runtime div scaling cycle, groups the nodes by
  runtime-age div scaling cycle, visits the task's bin, then the greater node bins in
  ascending order, then the smaller node bins in descending order, and returns the first
  candidate BFD finds in a visited bin, none when no bin yields one.
\<close>

theorem time_bin_bfd_search_order:
  assumes "scaling_cycle \<noteq> 0" and "\<forall>n\<in>set nodes. instanceName n \<noteq> Some []"
  shows "time_bin_bfd p nodes scaling_cycle =
         first_candidate
           (map (\<lambda>b. bfd_algorithm p (filter (\<lambda>n. node_bin n scaling_cycle = b) nodes))
                (spec_bin_order (get_pod_runtime p div scaling_cycle) nodes scaling_cycle))"
  using assms
  by (simp add: time_bin_bfd_def Let_def bin_order_build_bins search_bins_first_candidate)

lemma batch_scenario_order:
  "spec_bin_order (get_pod_runtime batch_task div 300) batch_nodes3 300 = [3, 4, 0]"
  by (simp add: spec_bin_order_def get_pod_runtime_def batch_task_def batch_nodes3_def
        mk_pod_def mk_node_def node_bin_def node_runtime_def get_or_def)

text \<open>
  The theorem at the batch scenario: the bins are visited in the order 3, 4, 0 and the
  task goes to \<open>n2\<close>, the node of its own bin.
\<close>

theorem time_bin_bfd_search_order_witness:
  "(300::int) \<noteq> 0
   \<and> map instanceName batch_nodes3 = [Some ''n1'', Some ''n2'', Some ''n3'']
   \<and> time_bin_bfd batch_task batch_nodes3 300 =
       first_candidate
         (map (\<lambda>b. bfd_algorithm batch_task (filter (\<lambda>n. node_bin n 300 = b) batch_nodes3))
              [3, 4, 0])
   \<and> time_bin_bfd batch_task batch_nodes3 300 = Inr (Some ''n2'')"
proof -
  have h1: "(300::int) \<noteq> 0" by simp
  have h2: "\<forall>n\<in>set batch_nodes3. instanceName n \<noteq> Some []"
    by (simp add: batch_nodes3_def mk_node_def)
  have v: "time_bin_bfd batch_task batch_nodes3 300 = Inr (Some ''n2'')"
    by (simp add: time_bin_bfd_def build_bins_def bin_order_def get_pod_runtime_def
          batch_task_def batch_nodes3_def mk_pod_def mk_node_def node_runtime_def get_or_def
          bfd_algorithm_def fits_def mem_key_def subscript_instanceName_def)
  have nm: "map instanceName batch_nodes3 = [Some ''n1'', Some ''n2'', Some ''n3'']"
    by (simp add: batch_nodes3_def mk_node_def)
  from time_bin_bfd_search_order [OF h1 h2, of batch_task] h1 nm v show ?thesis
    by (simp add: batch_scenario_order)
qed

section \<open>Verification: a node profile without runtime-age\<close>

text \<open>
  C10. A batch node profile without the \<open>runtime\<close> field is read by both consumers with
  the scaling cycle as its runtime-age: the Packer's scheduler files it under bin 1 and not
  under bin 0, and the Autoscaler leaves it out of the zero bin.
\<close>

theorem missing_runtime_defaults:
  assumes "runtime n = None" and "scaling_cycle \<noteq> 0" and "n \<in> set nodes"
  shows "node_runtime n scaling_cycle = scaling_cycle
       \<and> node_bin n scaling_cycle = 1
       \<and> (\<exists>g. map_of (build_bins nodes scaling_cycle) 1 = Some g \<and> n \<in> set g)
       \<and> (\<forall>g. map_of (build_bins nodes scaling_cycle) 0 = Some g \<longrightarrow> n \<notin> set g)
       \<and> n \<notin> set (zero_bin_nodes nodes scaling_cycle)"
proof -
  have r: "node_runtime n scaling_cycle = scaling_cycle"
    using assms(1) by (simp add: node_runtime_def get_or_def)
  then have b: "node_bin n scaling_cycle = 1"
    using assms(2) by (simp add: node_bin_def)
  have one: "n \<in> set (filter (\<lambda>x. node_bin x scaling_cycle = 1) nodes)"
    using b assms(3) by simp
  then have "filter (\<lambda>x. node_bin x scaling_cycle = 1) nodes \<noteq> []"
    by (metis empty_iff empty_set)
  with one have g1: "\<exists>g. map_of (build_bins nodes scaling_cycle) 1 = Some g \<and> n \<in> set g"
    by (simp add: map_of_build_bins)
  have g0: "\<forall>g. map_of (build_bins nodes scaling_cycle) 0 = Some g \<longrightarrow> n \<notin> set g"
    using b by (auto simp: map_of_build_bins split: if_splits)
  have z: "n \<notin> set (zero_bin_nodes nodes scaling_cycle)"
    using assms(1) by (simp add: zero_bin_nodes_def get_or_def)
  from r b g1 g0 z show ?thesis by blast
qed

theorem missing_runtime_defaults_witness:
  "runtime ageless_node = None \<and> (300::int) \<noteq> 0 \<and> ageless_node \<in> set ageless_nodes
   \<and> node_runtime ageless_node 300 = 300
   \<and> node_bin ageless_node 300 = 1
   \<and> map_of (build_bins ageless_nodes 300) 1 = Some [ageless_node]
   \<and> map_of (build_bins ageless_nodes 300) 0 = Some [mk_node ''batch-old'' 4 8000 (Some 60)]
   \<and> ageless_node \<notin> set (zero_bin_nodes ageless_nodes 300)"
proof -
  have h1: "runtime ageless_node = None" by (simp add: ageless_node_def mk_node_def)
  have h2: "(300::int) \<noteq> 0" by simp
  have h3: "ageless_node \<in> set ageless_nodes" by (simp add: ageless_nodes_def)
  have b1: "map_of (build_bins ageless_nodes 300) 1 = Some [ageless_node]"
    by (simp add: build_bins_def ageless_nodes_def ageless_node_def mk_node_def node_runtime_def get_or_def)
  have b0: "map_of (build_bins ageless_nodes 300) 0 = Some [mk_node ''batch-old'' 4 8000 (Some 60)]"
    by (simp add: build_bins_def ageless_nodes_def ageless_node_def mk_node_def node_runtime_def get_or_def)
  from missing_runtime_defaults [OF h1 h2 h3] h1 h2 h3 b1 b0 show ?thesis by simp
qed

section \<open>Verification: greedy flavor selection\<close>

lemma score_micro:
  "calculate_score e2_micro c m = Inr ((1 / 2 * min (c / 2) 1 + 1 / 2 * min m 1) / (3 / 500))"
  by (simp add: calculate_score_def e2_micro_def)

lemma score_std:
  "calculate_score e2_standard_2 c m =
     Inr ((1 / 2 * min (c / 2) 1 + 1 / 2 * min (m / 8) 1) / (343 / 5000))"
  by (simp add: calculate_score_def e2_standard_2_def)

lemma fl_micro [simp]: "fl_cpu e2_micro = 2" "fl_memory e2_micro = 1"
  by (simp_all add: e2_micro_def)

lemma fl_std [simp]: "fl_cpu e2_standard_2 = 2" "fl_memory e2_standard_2 = 8"
  by (simp_all add: e2_standard_2_def)

lemma best_flavor_exhausted:
  assumes "c \<le> - 4"
  shows "best_flavor VM_FLAVORS c m None (- 1) = Inr None"
proof -
  have c2: "min c 2 = c" using assms by simp
  have n: "min (c / 2) 1 \<le> - 2" using assms by simp
  have m1: "min (min m 1) 1 \<le> (1::rat)" by simp
  have m8: "min (min m 8 / 8) 1 \<le> (1::rat)" by simp
  have s1: "\<not> - 1 < (1 / 2 * min (c / 2) 1 + 1 / 2 * min (min m 1) 1) / (3 / 500)"
    using n m1 by (simp add: field_simps)
  have s2: "\<not> - 1 < (1 / 2 * min (c / 2) 1 + 1 / 2 * min (min m 8 / 8) 1) / (343 / 5000)"
    using n m8 by (simp add: field_simps)
  show ?thesis
    using s1 s2 by (simp add: VM_FLAVORS_def score_micro score_std c2)
qed

text \<open>
  While at most two CPUs are over-provisioned and at least one unit of memory is missing,
  \<open>e2-micro\<close> has the greatest score: both flavors have the same CPU term, the memory
  term of \<open>e2-micro\<close> is the full \<open>1/2\<close>, and its price is the lower one.
\<close>

lemma best_flavor_micro:
  assumes "- 2 \<le> c" and "1 \<le> m"
  shows "best_flavor VM_FLAVORS c m None (- 1) = Inr (Some e2_micro)"
proof -
  have m1: "min (min m 1) 1 = (1::rat)" using assms(2) by simp
  have n: "- 1 \<le> min (min c 2 / 2) 1" using assms(1) by simp
  have m8: "min (min m 8 / 8) 1 \<le> (1::rat)" by simp
  let ?a = "1 / 2 * min (min c 2 / 2) 1"
  have a: "- (1 / 2) \<le> ?a" using n by simp
  have s1: "- 1 < (?a + 1 / 2 * min (min m 1) 1) / (3 / 500)"
    unfolding m1 using a by (simp add: field_simps)
  have "(?a + 1 / 2 * min (min m 8 / 8) 1) / (343 / 5000) \<le> (?a + 1 / 2) / (343 / 5000)"
    using m8 by (simp add: field_simps)
  also have "\<dots> \<le> (?a + 1 / 2) / (3 / 500)"
    using a by (simp add: field_simps)
  finally have s2: "\<not> (?a + 1 / 2 * min (min m 1) 1) / (3 / 500)
                    < (?a + 1 / 2 * min (min m 8 / 8) 1) / (343 / 5000)"
    unfolding m1 by simp
  show ?thesis
    using s1 s2 by (simp add: VM_FLAVORS_def score_micro score_std)
qed

lemma greedy_loop_four_cores:
  assumes "4 \<le> m"
  shows "greedy_loop 4 m VM_FLAVORS [] = Some (Inr [e2_micro, e2_micro, e2_micro, e2_micro])"
proof -
  have b1: "best_flavor VM_FLAVORS 4 m None (- 1) = Inr (Some e2_micro)"
    and b2: "best_flavor VM_FLAVORS 2 (m - 1) None (- 1) = Inr (Some e2_micro)"
    and b3: "best_flavor VM_FLAVORS 0 (m - 2) None (- 1) = Inr (Some e2_micro)"
    and b4: "best_flavor VM_FLAVORS (- 2) (m - 3) None (- 1) = Inr (Some e2_micro)"
    using assms by (simp_all add: best_flavor_micro)
  have b5: "best_flavor VM_FLAVORS (- 4) (m - 4) None (- 1) = Inr None"
    by (simp add: best_flavor_exhausted)
  have g5: "greedy_loop (- 4) (m - 4) VM_FLAVORS [e2_micro, e2_micro, e2_micro, e2_micro]
              = Some (Inr [e2_micro, e2_micro, e2_micro, e2_micro])"
    by (subst greedy_loop.simps) (simp add: b5)
  have g4: "greedy_loop (- 2) (m - 3) VM_FLAVORS [e2_micro, e2_micro, e2_micro]
              = Some (Inr [e2_micro, e2_micro, e2_micro, e2_micro])"
    using assms by (subst greedy_loop.simps) (simp add: b4 g5)
  have g3: "greedy_loop 0 (m - 2) VM_FLAVORS [e2_micro, e2_micro]
              = Some (Inr [e2_micro, e2_micro, e2_micro, e2_micro])"
    using assms by (subst greedy_loop.simps) (simp add: b3 g4)
  have g2: "greedy_loop 2 (m - 1) VM_FLAVORS [e2_micro]
              = Some (Inr [e2_micro, e2_micro, e2_micro, e2_micro])"
    by (subst greedy_loop.simps) (simp add: b2 g3)
  show ?thesis
    by (subst greedy_loop.simps) (simp add: b1 g2)
qed

lemma greedy_loop_reduced:
  "greedy_loop 2 8 VM_FLAVORS [] = Some (Inr [e2_micro, e2_micro, e2_micro])"
proof -
  have b1: "best_flavor VM_FLAVORS 2 8 None (- 1) = Inr (Some e2_micro)"
    and b2: "best_flavor VM_FLAVORS 0 7 None (- 1) = Inr (Some e2_micro)"
    and b3: "best_flavor VM_FLAVORS (- 2) 6 None (- 1) = Inr (Some e2_micro)"
    and b4: "best_flavor VM_FLAVORS (- 4) 5 None (- 1) = Inr None"
    by (simp_all add: VM_FLAVORS_def score_micro score_std)
  have g4: "greedy_loop (- 4) 5 VM_FLAVORS [e2_micro, e2_micro, e2_micro]
              = Some (Inr [e2_micro, e2_micro, e2_micro])"
    by (subst greedy_loop.simps) (simp add: b4)
  have g3: "greedy_loop (- 2) 6 VM_FLAVORS [e2_micro, e2_micro]
              = Some (Inr [e2_micro, e2_micro, e2_micro])"
    by (subst greedy_loop.simps) (simp add: b3 g4)
  have g2: "greedy_loop 0 7 VM_FLAVORS [e2_micro]
              = Some (Inr [e2_micro, e2_micro, e2_micro])"
    by (subst greedy_loop.simps) (simp add: b2 g3)
  show ?thesis
    by (subst greedy_loop.simps) (simp add: b1 g2)
qed

lemma demand_totals:
  "sum_list (map cpu_request demand_pods) = 4" "sum_list (map memory_request demand_pods) = 16"
  by (simp_all add: demand_pods_def mk_pod_def)

text \<open>
  C3, as stated, fails: at the demand (4, 16) the selector does not return two
  \<open>e2-standard-2\<close>.
\<close>

theorem greedy_scenario_counterexample:
  "greedy_autoscaling demand_pods VM_FLAVORS \<noteq> Some (Inr [e2_standard_2, e2_standard_2])"
  by (simp add: greedy_autoscaling_def demand_totals greedy_loop_four_cores [of 16, simplified])

text \<open>
  C3, amended. With the catalog of the source and an unmet demand of 4 CPUs and at least 4
  units of memory (16 GiB, counted in GiB as in MiB), the selector returns four times
  \<open>e2-micro\<close>: the normalised terms are capped at 1, so the first scores are
  \<open>1/0.006\<close> for \<open>e2-micro\<close> against \<open>1/0.0686\<close> for \<open>e2-standard-2\<close>; after the
  fourth pick the remaining CPU is \<open>-4\<close>, no flavor scores above \<open>-1\<close>, and the loop is
  left with memory still missing.
\<close>

theorem greedy_scenario_result:
  assumes "sum_list (map cpu_request pending_pods) = 4"
    and "4 \<le> sum_list (map memory_request pending_pods)"
  shows "greedy_autoscaling pending_pods VM_FLAVORS
           = Some (Inr [e2_micro, e2_micro, e2_micro, e2_micro])"
  using assms by (simp add: greedy_autoscaling_def greedy_loop_four_cores)

theorem greedy_scenario_result_witness:
  "sum_list (map cpu_request demand_pods) = 4
   \<and> 4 \<le> sum_list (map memory_request demand_pods)
   \<and> calculate_score e2_micro (min 4 (fl_cpu e2_micro)) (min 16 (fl_memory e2_micro))
       = Inr (500 / 3)
   \<and> calculate_score e2_standard_2 (min 4 (fl_cpu e2_standard_2)) (min 16 (fl_memory e2_standard_2))
       = Inr (5000 / 343)
   \<and> greedy_autoscaling demand_pods VM_FLAVORS
       = Some (Inr [e2_micro, e2_micro, e2_micro, e2_micro])"
proof -
  have h1: "sum_list (map cpu_request demand_pods) = 4"
    and h2: "4 \<le> sum_list (map memory_request demand_pods)"
    by (simp_all add: demand_totals)
  from greedy_scenario_result [OF h1 h2] h1 h2 show ?thesis
    by (simp add: score_micro score_std)
qed

section \<open>Verification: zero-bin subtraction\<close>

lemma subtract_zero_bin_sums:
  "subtract_zero_bin (c, m) ns =
     (c - sum_list (map (\<lambda>n. get_or (cpuCapacity n) 0) ns),
      m - sum_list (map (\<lambda>n. get_or (memoryCapacity n) 0) ns))"
  unfolding subtract_zero_bin_def
  by (induction ns arbitrary: c m) (simp_all add: algebra_simps)

text \<open>
  C4, as stated, fails: with a demand of (4, 16) and one zero-bin node of capacity (2, 8)
  the reduced totals are (2, 8); the selector started from them would pick three flavors,
  and the Autoscaler returns the four flavors of a run started from (4, 16).
\<close>

theorem batch_autoscaling_totals_counterexample:
  "subtract_zero_bin (sum_list (map cpu_request demand_pods), sum_list (map memory_request demand_pods))
     (zero_bin_nodes [fresh_batch_node] 300) = (2, 8)
   \<and> batch_node_autoscaling demand_pods [fresh_batch_node] 300 VM_FLAVORS
       = Some (Inr [e2_micro, e2_micro, e2_micro, e2_micro])
   \<and> greedy_loop 2 8 VM_FLAVORS [] = Some (Inr [e2_micro, e2_micro, e2_micro])
   \<and> batch_node_autoscaling demand_pods [fresh_batch_node] 300 VM_FLAVORS
       \<noteq> greedy_loop 2 8 VM_FLAVORS []"
proof -
  have z: "zero_bin_nodes [fresh_batch_node] 300 = [fresh_batch_node]"
    by (simp add: zero_bin_nodes_def fresh_batch_node_def get_or_def)
  have s: "subtract_zero_bin (4, 16) [fresh_batch_node] = (2, 8)"
    by (simp add: subtract_zero_bin_def fresh_batch_node_def get_or_def)
  have b: "batch_node_autoscaling demand_pods [fresh_batch_node] 300 VM_FLAVORS
       = Some (Inr [e2_micro, e2_micro, e2_micro, e2_micro])"
    by (simp add: batch_node_autoscaling_def demand_totals z s greedy_autoscaling_def
          greedy_loop_four_cores [of 16, simplified])
  show ?thesis
    by (simp add: demand_totals z s b greedy_loop_reduced)
qed

text \<open>
  C4, amended. The Autoscaler subtracts the capacities of the batch node profiles of
  runtime-age below the scaling cycle from the pending tasks' totals; when both reduced
  totals are at most 0 it selects no flavor, and otherwise the greedy selector runs from
  the pending tasks' own totals: the reduced totals only decide whether it runs.
\<close>

theorem batch_node_autoscaling_gate:
  "batch_node_autoscaling pending_pods batch_nodes scaling_cycle vm_flavors =
     (if sum_list (map cpu_request pending_pods)
           - sum_list (map (\<lambda>n. get_or (cpuCapacity n) 0)
                           (filter (\<lambda>n. get_or (runtime n) scaling_cycle < scaling_cycle) batch_nodes)) \<le> 0
       \<and> sum_list (map memory_request pending_pods)
           - sum_list (map (\<lambda>n. get_or (memoryCapacity n) 0)
                           (filter (\<lambda>n. get_or (runtime n) scaling_cycle < scaling_cycle) batch_nodes)) \<le> 0
      then Some (Inr [])
      else greedy_loop (sum_list (map cpu_request pending_pods))
                       (sum_list (map memory_request pending_pods)) vm_flavors [])"
  by (simp add: batch_node_autoscaling_def subtract_zero_bin_sums zero_bin_nodes_def
        greedy_autoscaling_def)

section \<open>Verification: deletion of AutoScaleRequests\<close>

lemma lower_long_running: "lower ''long-running'' = ''long-running''"
  by (simp add: lower_def lower_char_def)

lemma svc_flavors:
  "select_flavors svc_env ''long-running'' [svc_pod]
     = Some (Inr [e2_micro, e2_micro, e2_micro, e2_micro])"
proof -
  have t: "sum_list (map cpu_request [svc_pod]) = 4" "sum_list (map memory_request [svc_pod]) = 16"
    by (simp_all add: svc_pod_def mk_pod_def)
  have "greedy_autoscaling [svc_pod] VM_FLAVORS = Some (Inr [e2_micro, e2_micro, e2_micro, e2_micro])"
    unfolding greedy_autoscaling_def t by (rule greedy_loop_four_cores) simp
  then show ?thesis by (simp add: select_flavors_def lower_long_running)
qed

lemma svc_pending: "resolve_pending svc_env [''svc-1''] = [svc_pod]"
  by (simp add: resolve_pending_def svc_env_def svc_pod_def mk_pod_def)

text \<open>
  C5, as stated, fails: the request names a Pending long-running pod, for which no zero-bin
  subtraction takes place; building the cloud client raises, so the node pool is not
  resized; and the request is deleted all the same.
\<close>

theorem request_deleted_counterexample:
  "process_request svc_env svc_request [svc_request]
     = Some (Inr (Processed (ScaleFailed ApiException), []))"
proof -
  have s: "\<And>k. scale_gke_node_pool svc_env ''long-running'' k = ScaleFailed ApiException"
    by (simp add: scale_gke_node_pool_def lower_long_running NODE_POOL_MAPPING_def svc_env_def)
  have d: "delete_request svc_env ''asr-1700000000-long-running'' [svc_request] = []"
    by (simp add: delete_request_def svc_env_def svc_request_def)
  show ?thesis
    by (simp add: process_request_def svc_request_def get_or_def svc_pending svc_flavors s
          d [unfolded svc_request_def])
qed

text \<open>
  C5, amended. When the Autoscaler processes a stored request \<open>R\<close> and its flavor
  selection returns, \<open>R\<close> is deleted if and only if at least one pod it names was read as
  Pending and the deletion call did not raise. The outcome of the resize is not consulted:
  \<open>R\<close> is deleted also when provisioning fails.
\<close>

theorem request_deleted_iff:
  assumes "R \<in> set store"
    and "resolve_pending env (get_or (podNames R) []) = []
         \<or> select_flavors env (get_or (workloadType R) ''batch'')
               (resolve_pending env (get_or (podNames R) [])) = Some (Inr vms)"
  shows "\<exists>res store'. process_request env R store = Some (Inr (res, store'))
     \<and> (asr_name R \<notin> asr_name ` set store' \<longleftrightarrow>
          resolve_pending env (get_or (podNames R) []) \<noteq> []
          \<and> \<not> delete_request_raises env (asr_name R))"
proof (cases "resolve_pending env (get_or (podNames R) []) = []")
  case True
  then show ?thesis using assms(1) by (simp add: process_request_def)
next
  case False
  with assms(2) have vms:
    "select_flavors env (get_or (workloadType R) ''batch'')
       (resolve_pending env (get_or (podNames R) [])) = Some (Inr vms)" by simp
  have p: "process_request env R store =
      Some (Inr (Processed (scale_gke_node_pool env (get_or (workloadType R) ''batch'') (length vms)),
                 delete_request env (asr_name R) store))"
    using False vms by (simp add: process_request_def Let_def)
  have d: "asr_name R \<notin> asr_name ` set (delete_request env (asr_name R) store) \<longleftrightarrow>
          \<not> delete_request_raises env (asr_name R)"
    using assms(1) by (auto simp: delete_request_def)
  show ?thesis
    using p d False by simp
qed

text \<open>
  The theorem at the stored long-running request: its flavors are selected, the resize
  fails, and the request is gone from the store.
\<close>

theorem request_deleted_iff_witness:
  "svc_request \<in> set [svc_request]
   \<and> select_flavors svc_env (get_or (workloadType svc_request) ''batch'')
         (resolve_pending svc_env (get_or (podNames svc_request) []))
       = Some (Inr [e2_micro, e2_micro, e2_micro, e2_micro])
   \<and> (\<exists>res store'. process_request svc_env svc_request [svc_request] = Some (Inr (res, store'))
        \<and> (asr_name svc_request \<notin> asr_name ` set store' \<longleftrightarrow>
             resolve_pending svc_env (get_or (podNames svc_request) []) \<noteq> []
             \<and> \<not> delete_request_raises svc_env (asr_name svc_request)))
   \<and> resolve_pending svc_env (get_or (podNames svc_request) []) \<noteq> []
   \<and> \<not> delete_request_raises svc_env (asr_name svc_request)"
proof -
  have h: "svc_request \<in> set [svc_request]" by simp
  have f: "select_flavors svc_env (get_or (workloadType svc_request) ''batch'')
         (resolve_pending svc_env (get_or (podNames svc_request) []))
       = Some (Inr [e2_micro, e2_micro, e2_micro, e2_micro])"
    by (simp add: svc_request_def get_or_def svc_pending svc_flavors)
  have n: "resolve_pending svc_env (get_or (podNames svc_request) []) \<noteq> []"
    by (simp add: svc_request_def get_or_def svc_pending)
  have r: "\<not> delete_request_raises svc_env (asr_name svc_request)"
    by (simp add: svc_env_def)
  from request_deleted_iff [OF h disjI2, OF f] h f n r show ?thesis by blast
qed

section \<open>Verification: Resource Profiler\<close>




lemma cycle_idle:
  "update_node_profiles [profiled_node] no_pods_on aged_store = Inl TypeError"
  by (simp add: update_node_profiles_def no_locals_def profiled_node_def has_workload_label_def
        running_requests_def make_body_def py_sub_def no_pods_on_def)




text \<open>
  C7, at a node as the Kubernetes client reports it. With no pod on the node the sum of the
  requests is 0 and the subtraction of line 34 has a string on its left; with a Running pod
  the sum itself adds a string to 0. Either raises \<open>TypeError\<close>, which the handler for
  \<open>ApiException\<close> does not catch: no availability is computed and no NodeProfile is
  written.
\<close>

theorem profiler_availability_raises:
  "update_node_profiles [profiled_node] no_pods_on [] = Inl TypeError
   \<and> profiles_after [profiled_node] no_pods_on [] = []
   \<and> update_node_profiles [profiled_node] busy_pods_on [] = Inl TypeError
   \<and> profiles_after [profiled_node] busy_pods_on [] = []"
  by (simp add: profiles_after_def update_node_profiles_def no_locals_def profiled_node_def
        has_workload_label_def running_requests_def make_body_def py_sub_def no_pods_on_def
        busy_pods_on_def busy_pod_def get_or_def)

section \<open>Verification: migration\<close>

text \<open>
  C8. For every migration of a pod of the cluster: when the checkpoint, the copy out of
  the source, the creation of the replica, the copy into the replica or the restore fails,
  the original pod is still in the cluster as it was (Running on its source node) and the
  migration does not report success; the original pod is gone only when all of these steps
  and the deletion succeeded; and the only pod a migration adds is the replica.
\<close>

theorem migration_keeps_original:
  assumes "p \<in> set cluster"
  shows "(checkpoint_raises env \<or> copy_out_raises env \<or> create_pod_raises env
            \<or> copy_in_raises env \<or> restore_raises env
          \<longrightarrow> p \<in> set (snd (migrate_container env cluster p target))
              \<and> fst (migrate_container env cluster p target) \<noteq> Inr True)
       \<and> (p \<notin> set (snd (migrate_container env cluster p target))
          \<longrightarrow> \<not> checkpoint_raises env \<and> \<not> copy_out_raises env \<and> \<not> create_pod_raises env
              \<and> \<not> copy_in_raises env \<and> \<not> restore_raises env \<and> \<not> delete_pod_raises env
              \<and> fst (migrate_container env cluster p target) = Inr True)
       \<and> (\<forall>q\<in>set (snd (migrate_container env cluster p target)).
             q \<in> set cluster \<or> q = replica p target)"
proof (cases "kp_containers p")
  case Nil
  with assms show ?thesis by (simp add: migrate_container_def)
next
  case (Cons c cs)
  with assms show ?thesis
    by (auto simp: migrate_container_def Let_def delete_namespaced_pod_def)
qed

theorem migration_keeps_original_witness:
  "running_job \<in> set [running_job]
   \<and> restore_raises restore_fails
   \<and> migrate_container restore_fails [running_job] running_job ''bn-2''
       = (Inr False, [running_job, replica running_job ''bn-2''])
   \<and> running_job \<in> set (snd (migrate_container restore_fails [running_job] running_job ''bn-2''))
   \<and> fst (migrate_container restore_fails [running_job] running_job ''bn-2'') \<noteq> Inr True"
proof -
  have h: "running_job \<in> set [running_job]" by simp
  have r: "restore_raises restore_fails" by (simp add: restore_fails_def)
  have v: "migrate_container restore_fails [running_job] running_job ''bn-2''
       = (Inr False, [running_job, replica running_job ''bn-2''])"
    by (simp add: migrate_container_def restore_fails_def running_job_def)
  from migration_keeps_original [OF h, of restore_fails "''bn-2''"] h r v show ?thesis
    by simp
qed

section \<open>Verification: the Packer cycle\<close>

text \<open>
  The Packer's pools hold only profiles whose instance name contains \<open>longrunning\<close> or
  \<open>batch\<close>, so the selection of a target node never raises.
\<close>

lemma named_node:
  assumes "py_in (c # cs) (lower (get_or (instanceName n) []))"
  shows "instanceName n \<noteq> None \<and> instanceName n \<noteq> Some []"
  using assms by (auto simp: get_or_def lower_def split: option.splits)

lemma bfd_algorithm_no_error:
  assumes "\<forall>n\<in>set N. instanceName n \<noteq> None"
  shows "bfd_algorithm p N \<noteq> Inl e"
proof (cases "sort_key mem_key (filter (fits p) N)")
  case Nil
  then show ?thesis by (simp add: bfd_algorithm_def)
next
  case (Cons n ns)
  then have "n \<in> set (sort_key mem_key (filter (fits p) N))" by simp
  then have "n \<in> set N" by simp
  with assms have "instanceName n \<noteq> None" by blast
  with Cons show ?thesis
    by (auto simp: bfd_algorithm_def subscript_instanceName_def)
qed

lemma first_candidate_no_error:
  "\<forall>r\<in>set rs. \<forall>e. r \<noteq> Inl e \<Longrightarrow> first_candidate rs \<noteq> Inl e"
  by (induction rs rule: first_candidate.induct) auto

lemma time_bin_bfd_no_error:
  assumes "\<forall>n\<in>set N. instanceName n \<noteq> None \<and> instanceName n \<noteq> Some []"
  shows "time_bin_bfd p N 300 \<noteq> Inl e"
proof -
  have nm: "\<forall>n\<in>set N. instanceName n \<noteq> Some []" using assms by blast
  have "\<forall>r\<in>set (map (\<lambda>b. bfd_algorithm p (filter (\<lambda>n. node_bin n 300 = b) N))
                      (spec_bin_order (get_pod_runtime p div 300) N 300)). \<forall>e. r \<noteq> Inl e"
    using assms by (auto simp: bfd_algorithm_no_error)
  then show ?thesis
    by (simp add: time_bin_bfd_def Let_def bin_order_build_bins
          search_bins_first_candidate [OF nm] first_candidate_no_error)
qed

lemma select_target_returns: "\<exists>t. select_target p node_profiles = Inr t"
proof -
  have l: "\<forall>n\<in>set (packer_long_running_nodes node_profiles). instanceName n \<noteq> None"
    using named_node by (auto simp: packer_long_running_nodes_def)
  have b: "\<forall>n\<in>set (packer_batch_nodes node_profiles).
             instanceName n \<noteq> None \<and> instanceName n \<noteq> Some []"
    using named_node by (auto simp: packer_batch_nodes_def)
  have "select_target p node_profiles \<noteq> Inl e" for e
    using bfd_algorithm_no_error [OF l] time_bin_bfd_no_error [OF b]
    by (simp add: select_target_def)
  then show ?thesis by (cases "select_target p node_profiles") auto
qed

lemma grows_refl [simp]: "grows st st"
  by (simp add: grows_def)

lemma grows_trans: "grows a b \<Longrightarrow> grows b c \<Longrightarrow> grows a c"
  by (auto simp: grows_def)

lemma trigger_autoscaling_grows: "grows st (trigger_autoscaling env t wt ps st)"
  by (auto simp: grows_def trigger_autoscaling_def Let_def)

lemma named_in_grows: "grows st st' \<Longrightarrow> named_in st p \<Longrightarrow> named_in st' p"
  by (auto simp: grows_def named_in_def list_ex_iff)

lemma settled_grows: "grows st st' \<Longrightarrow> settled env nps st p \<Longrightarrow> settled env nps st' p"
  using named_in_grows [of st st' p]
  by (auto simp: settled_def grows_def split: sum.splits if_splits)

lemma trigger_autoscaling_settles:
  "named_in (trigger_autoscaling env t (pod_type p) [p] st) p
   \<or> FailedToCreate (request_name t (pod_type p)) [pod_name p]
        \<in> set (printed (trigger_autoscaling env t (pod_type p) [p] st))"
  by (auto simp: trigger_autoscaling_def Let_def named_in_def list_ex_iff get_or_def)

lemma place_pod_returns:
  "\<exists>st'. place_pod env nps st p = Inr st' \<and> grows st st' \<and> settled env nps st' p"
proof -
  from select_target_returns [of p nps] obtain t where t: "select_target p nps = Inr t" by blast
  show ?thesis
  proof (cases "t \<noteq> None \<and> t \<noteq> Some []")
    case True
    with t show ?thesis
      by (auto simp: place_pod_def settled_def grows_def)
  next
    case False
    let ?st1 = "st\<lparr>printed := printed st @ [NoSuitableNode (pod_name p)]\<rparr>"
    let ?st' = "trigger_autoscaling env (time_at env (pod_name p)) (pod_type p) [p] ?st1"
    have p: "place_pod env nps st p = Inr ?st'"
      using t False by (auto simp: place_pod_def)
    have "grows st ?st1" by (auto simp: grows_def)
    then have g: "grows st ?st'"
      using trigger_autoscaling_grows grows_trans by blast
    have s: "settled env nps ?st' p"
      using t False trigger_autoscaling_settles [of env "time_at env (pod_name p)" p ?st1]
      by (auto simp: settled_def)
    from p g s show ?thesis by blast
  qed
qed

lemma place_pods_returns:
  "\<exists>st'. place_pods env nps st ps = Inr st' \<and> grows st st'
         \<and> (\<forall>p\<in>set ps. settled env nps st' p)"
proof (induction ps arbitrary: st)
  case Nil
  show ?case by simp
next
  case (Cons p ps)
  from place_pod_returns [of env nps st p] obtain st1 where
    p1: "place_pod env nps st p = Inr st1" and g1: "grows st st1" and s1: "settled env nps st1 p"
    by blast
  from Cons.IH [of st1] obtain st' where
    p2: "place_pods env nps st1 ps = Inr st'" and g2: "grows st1 st'"
    and s2: "\<forall>q\<in>set ps. settled env nps st' q" by blast
  have "settled env nps st' p" using settled_grows [OF g2 s1] .
  with p1 p2 g1 g2 s2 show ?case
    using grows_trans by (auto simp: )
qed

lemma show_seconds: "show_nat 1700000000 = ''1700000000''"
  by (simp add: show_nat.simps digit_char_def)

lemma lower_batch: "lower ''batch'' = ''batch''"
  by (simp add: lower_def lower_char_def)

lemma name_batch: "request_name 1700000000 ''batch'' = ''asr-1700000000-batch''"
  by (simp add: request_name_def show_seconds)

lemma no_nodes: "time_bin_bfd p [] 300 = Inr None"
  by (simp add: time_bin_bfd_def build_bins_def bin_order_def)

lemma cycle_same_second:
  "schedule_cycle same_second_env [job_1, job_2] [] empty_state = Inr after_same_second"
proof -
  have t: "pod_type job_1 = ''batch''" "pod_type job_2 = ''batch''"
    by (simp_all add: pod_type_def job_1_def job_2_def mk_pod_def get_or_def lower_batch)
  have s: "select_target job_1 [] = Inr None" "select_target job_2 [] = Inr None"
    by (simp_all add: select_target_def t packer_batch_nodes_def no_nodes)
  have n: "pod_name job_1 = ''job-1''" "pod_name job_2 = ''job-2''"
    by (simp_all add: job_1_def job_2_def mk_pod_def)
  have p: "get_pending_pods [job_1, job_2] = [job_1, job_2]"
    by (simp add: get_pending_pods_def job_1_def job_2_def mk_pod_def)
  show ?thesis
    by (simp add: schedule_cycle_def p place_pod_def s t n trigger_autoscaling_def
          same_second_env_def empty_state_def name_batch Let_def
          after_same_second_def)
qed

text \<open>
  C9, as stated, fails: both tasks are Pending and tagged, neither has a candidate node,
  and the request for the second gets the name of the first, which the orchestrator
  already stores; the creation raises, the Packer prints the failure, and after the cycle
  the second task is neither bound nor named in an AutoScaleRequest.
\<close>

theorem packer_cycle_counterexample:
  "schedule_cycle same_second_env [job_1, job_2] [] empty_state = Inr after_same_second
   \<and> job_2 \<in> set (get_pending_pods [job_1, job_2])
   \<and> select_target job_2 [] = Inr None
   \<and> \<not> bound_in after_same_second job_2
   \<and> \<not> named_in after_same_second job_2"
proof -
  have p: "job_2 \<in> set (get_pending_pods [job_1, job_2])"
    by (simp add: get_pending_pods_def job_1_def job_2_def mk_pod_def)
  have t: "pod_type job_2 = ''batch''"
    by (simp add: pod_type_def job_2_def mk_pod_def get_or_def lower_batch)
  have s: "select_target job_2 [] = Inr None"
    by (simp add: select_target_def t packer_batch_nodes_def no_nodes)
  have b: "\<not> bound_in after_same_second job_2"
    by (simp add: bound_in_def after_same_second_def)
  have n: "\<not> named_in after_same_second job_2"
    by (simp add: named_in_def after_same_second_def get_or_def job_2_def mk_pod_def)
  from cycle_same_second p s b n show ?thesis by blast
qed

text \<open>
  What one placement does when its call is answered: a pod with a target node is bound to
  it when the binding does not raise, and the request of an unplaced pod is stored when the
  creation does not raise and no stored request has its name. The names stored after some
  placements are those stored before and those of the requests of the unplaced pods.
\<close>

lemma place_pods_append:
  "place_pods env nps st (xs @ ys) =
     (case place_pods env nps st xs of Inl e \<Rightarrow> Inl e | Inr s1 \<Rightarrow> place_pods env nps s1 ys)"
  by (induction xs arbitrary: st) (auto split: sum.splits)

lemma request_for_named:
  assumes "request_for env p \<in> set (requests st)"
  shows "named_in st p"
  unfolding named_in_def list_ex_iff
  by (rule bexI [OF _ assms]) (simp add: request_for_def get_or_def)

lemma place_pod_binds:
  assumes "place_pod env nps st p = Inr st'"
    and "select_target p nps = Inr (Some n)" and "n \<noteq> []"
    and "\<not> bind_raises env (pod_name p) n"
  shows "(pod_name p, n) \<in> set (bindings st')"
  using assms by (auto simp: place_pod_def)

lemma place_pod_requests:
  assumes "place_pod env nps st p = Inr st'"
    and "unplaced nps p"
    and "\<not> create_raises env (asr_name (request_for env p))"
    and "asr_name (request_for env p) \<notin> asr_name ` set (requests st)"
  shows "request_for env p \<in> set (requests st')"
proof -
  let ?st1 = "st\<lparr>printed := printed st @ [NoSuitableNode (pod_name p)]\<rparr>"
  from assms(1,2) have "st' = trigger_autoscaling env (time_at env (pod_name p)) (pod_type p) [p] ?st1"
    by (auto simp: place_pod_def unplaced_def)
  with assms(3,4) show ?thesis
    by (simp add: trigger_autoscaling_def Let_def request_for_def)
qed

lemma place_pod_names:
  assumes "place_pod env nps st p = Inr st'" and "x \<in> asr_name ` set (requests st')"
  shows "x \<in> asr_name ` set (requests st)
       \<or> (unplaced nps p \<and> x = asr_name (request_for env p))"
proof -
  from select_target_returns [of p nps] obtain t where t: "select_target p nps = Inr t" by blast
  show ?thesis
  proof (cases "t \<noteq> None \<and> t \<noteq> Some []")
    case True
    with t assms show ?thesis
      by (auto simp: place_pod_def split: if_splits)
  next
    case False
    with t have u: "unplaced nps p" by (auto simp: unplaced_def)
    let ?st1 = "st\<lparr>printed := printed st @ [NoSuitableNode (pod_name p)]\<rparr>"
    from assms(1) t False
    have "st' = trigger_autoscaling env (time_at env (pod_name p)) (pod_type p) [p] ?st1"
      by (auto simp: place_pod_def)
    with assms(2) u show ?thesis
      by (auto simp: trigger_autoscaling_def Let_def request_for_def split: if_splits)
  qed
qed

lemma place_pods_names:
  "place_pods env nps st ps = Inr st' \<Longrightarrow> x \<in> asr_name ` set (requests st') \<Longrightarrow>
   x \<in> asr_name ` set (requests st)
   \<or> (\<exists>q\<in>set ps. unplaced nps q \<and> x = asr_name (request_for env q))"
proof (induction ps arbitrary: st)
  case Nil
  then show ?case by simp
next
  case (Cons p ps)
  from Cons.prems(1) obtain s1 where p1: "place_pod env nps st p = Inr s1"
    and p2: "place_pods env nps s1 ps = Inr st'"
    by (auto split: sum.splits)
  from Cons.IH [OF p2 Cons.prems(2)] show ?case
  proof
    assume "x \<in> asr_name ` set (requests s1)"
    from place_pod_names [OF p1 this] show ?thesis by auto
  next
    assume "\<exists>q\<in>set ps. unplaced nps q \<and> x = asr_name (request_for env q)"
    then show ?thesis by auto
  qed
qed

lemma place_pods_split:
  assumes "place_pods env nps st (pre @ p # post) = Inr st'"
  shows "\<exists>s1 s2. place_pods env nps st pre = Inr s1 \<and> place_pod env nps s1 p = Inr s2
           \<and> place_pods env nps s2 post = Inr st' \<and> grows s2 st'"
proof -
  from assms obtain s1 where a: "place_pods env nps st pre = Inr s1"
    and b: "place_pods env nps s1 (p # post) = Inr st'"
    by (auto simp: place_pods_append split: sum.splits)
  from b obtain s2 where c: "place_pod env nps s1 p = Inr s2"
    and d: "place_pods env nps s2 post = Inr st'"
    by (auto split: sum.splits)
  from place_pods_returns [of env nps s2 post] d have "grows s2 st'" by auto
  with a c d show ?thesis by blast
qed

lemma pool_long: "packer_long_running_nodes pool_profiles = pool_profiles"
  by (simp add: packer_long_running_nodes_def pool_profiles_def mk_node_def get_or_def
        lower_def lower_char_def)

lemma pool_batch: "packer_batch_nodes pool_profiles = []"
  by (simp add: packer_batch_nodes_def pool_profiles_def mk_node_def get_or_def
        lower_def lower_char_def)

lemma mixed_types: "pod_type lr_task = ''long-running''" "pod_type job_1 = ''batch''"
  by (simp_all add: pod_type_def lr_task_def job_1_def mk_pod_def get_or_def lower_batch
        lower_long_running)

lemma mixed_targets:
  "select_target lr_task pool_profiles = Inr (Some ''longrunning-node-1'')"
  "select_target job_1 pool_profiles = Inr None"
  by (simp_all add: select_target_def mixed_types pool_long pool_batch no_nodes)
     (simp add: bfd_algorithm_def pool_profiles_def lr_task_def mk_pod_def mk_node_def fits_def
        get_or_def subscript_instanceName_def)

lemma mixed_pending: "get_pending_pods [lr_task, job_1] = [lr_task, job_1]"
  by (simp add: get_pending_pods_def lr_task_def job_1_def mk_pod_def)

lemma mixed_request:
  "request_for same_second_env job_1 =
     \<lparr>asr_name = ''asr-1700000000-batch'', workloadType = Some ''batch'',
      podNames = Some [''job-1'']\<rparr>"
  by (simp add: request_for_def same_second_env_def mixed_types name_batch)
     (simp add: job_1_def mk_pod_def)

lemma cycle_mixed:
  "schedule_cycle same_second_env [lr_task, job_1] pool_profiles empty_state = Inr after_mixed"
proof -
  have n: "pod_name lr_task = ''task-1''" "pod_name job_1 = ''job-1''"
    by (simp_all add: lr_task_def job_1_def mk_pod_def)
  show ?thesis
    by (simp add: schedule_cycle_def mixed_pending place_pod_def mixed_targets mixed_types n
          trigger_autoscaling_def same_second_env_def empty_state_def name_batch Let_def
          after_mixed_def)
qed

text \<open>
  C9, amended. A Packer cycle returns and loses nothing it found committed, stored or
  printed. After it, every Pending task tagged for the htas-scheduler that has a candidate
  node is bound to it or the failure of its binding is printed, and it is bound whenever
  the binding call did not raise; every such task without a candidate is named in a stored
  AutoScaleRequest or the failure of the creation is printed, and the request of its
  workload class that names it is stored whenever the creation call did not raise, which
  it does when the orchestrator fails or already stores a request of that name
  \<open>asr-<seconds>-<class>\<close>, from before the cycle or from an earlier unplaced task of
  the cycle.
\<close>

theorem packer_cycle_outcome:
  "\<exists>st'. schedule_cycle env pods node_profiles st = Inr st' \<and> grows st st'
     \<and> (\<forall>pre p post. get_pending_pods pods = pre @ p # post \<longrightarrow>
          (\<exists>target. select_target p node_profiles = Inr target
             \<and> (target \<noteq> None \<and> target \<noteq> Some [] \<longrightarrow>
                   ((pod_name p, the target) \<in> set (bindings st')
                    \<or> ErrorBinding (pod_name p) \<in> set (printed st'))
                 \<and> (\<not> bind_raises env (pod_name p) (the target) \<longrightarrow>
                       (pod_name p, the target) \<in> set (bindings st')))
             \<and> (target = None \<or> target = Some [] \<longrightarrow>
                   (named_in st' p
                    \<or> FailedToCreate (asr_name (request_for env p)) [pod_name p]
                         \<in> set (printed st'))
                 \<and> (\<not> create_raises env (asr_name (request_for env p))
                     \<and> asr_name (request_for env p) \<notin> asr_name ` set (requests st)
                     \<and> (\<forall>q\<in>set pre. unplaced node_profiles q \<longrightarrow>
                            asr_name (request_for env q) \<noteq> asr_name (request_for env p))
                     \<longrightarrow> request_for env p \<in> set (requests st') \<and> named_in st' p))))"
proof (cases "get_pending_pods pods = []")
  case True
  then show ?thesis by (simp add: schedule_cycle_def)
next
  case False
  let ?ps = "get_pending_pods pods"
  from place_pods_returns [of env node_profiles st ?ps] obtain st' where
    pp: "place_pods env node_profiles st ?ps = Inr st'" and g: "grows st st'"
    and s: "\<forall>p\<in>set ?ps. settled env node_profiles st' p" by blast
  have c: "schedule_cycle env pods node_profiles st = Inr st'"
    using False pp by (simp add: schedule_cycle_def)
  have main: "\<exists>target. select_target p node_profiles = Inr target
             \<and> (target \<noteq> None \<and> target \<noteq> Some [] \<longrightarrow>
                   ((pod_name p, the target) \<in> set (bindings st')
                    \<or> ErrorBinding (pod_name p) \<in> set (printed st'))
                 \<and> (\<not> bind_raises env (pod_name p) (the target) \<longrightarrow>
                       (pod_name p, the target) \<in> set (bindings st')))
             \<and> (target = None \<or> target = Some [] \<longrightarrow>
                   (named_in st' p
                    \<or> FailedToCreate (asr_name (request_for env p)) [pod_name p]
                         \<in> set (printed st'))
                 \<and> (\<not> create_raises env (asr_name (request_for env p))
                     \<and> asr_name (request_for env p) \<notin> asr_name ` set (requests st)
                     \<and> (\<forall>q\<in>set pre. unplaced node_profiles q \<longrightarrow>
                            asr_name (request_for env q) \<noteq> asr_name (request_for env p))
                     \<longrightarrow> request_for env p \<in> set (requests st') \<and> named_in st' p))"
    if sp: "?ps = pre @ p # post" for pre p post
  proof -
    from sp have "p \<in> set ?ps" by simp
    with s have sq: "settled env node_profiles st' p" by blast
    from select_target_returns [of p node_profiles] obtain t
      where t: "select_target p node_profiles = Inr t" by blast
    from pp sp place_pods_split [of env node_profiles st pre p post st'] obtain s1 s2 where
      a: "place_pods env node_profiles st pre = Inr s1"
      and b: "place_pod env node_profiles s1 p = Inr s2" and g2: "grows s2 st'" by auto
    show ?thesis
    proof (cases "t \<noteq> None \<and> t \<noteq> Some []")
      case True
      then obtain n where n: "t = Some n" "n \<noteq> []" by auto
      have d: "(pod_name p, the t) \<in> set (bindings st') \<or> ErrorBinding (pod_name p) \<in> set (printed st')"
        using sq t True by (auto simp: settled_def)
      have "(pod_name p, n) \<in> set (bindings st')" if "\<not> bind_raises env (pod_name p) n"
        using place_pod_binds [OF b _ n(2) that] t n(1) g2 by (auto simp: grows_def)
      with d t True n show ?thesis by auto
    next
      case False
      then have u: "unplaced node_profiles p" using t by (auto simp: unplaced_def)
      have d: "named_in st' p
               \<or> FailedToCreate (asr_name (request_for env p)) [pod_name p] \<in> set (printed st')"
        using sq t False by (auto simp: settled_def request_for_def)
      have "request_for env p \<in> set (requests st') \<and> named_in st' p"
        if h1: "\<not> create_raises env (asr_name (request_for env p))"
          and h2: "asr_name (request_for env p) \<notin> asr_name ` set (requests st)"
          and h3: "\<forall>q\<in>set pre. unplaced node_profiles q \<longrightarrow>
                     asr_name (request_for env q) \<noteq> asr_name (request_for env p)"
      proof -
        have "asr_name (request_for env p) \<notin> asr_name ` set (requests s1)"
        proof
          assume "asr_name (request_for env p) \<in> asr_name ` set (requests s1)"
          from place_pods_names [OF a this] h2 h3 show False by auto
        qed
        from place_pod_requests [OF b u h1 this] have "request_for env p \<in> set (requests s2)" .
        with g2 have "request_for env p \<in> set (requests st')" by (auto simp: grows_def)
        then show ?thesis by (simp add: request_for_named)
      qed
      with d t False show ?thesis by auto
    qed
  qed
  from c g main show ?thesis by blast
qed

text \<open>
  The theorem at the cycle with a long-running task and a batch task: the first is bound
  to the node of the long-running pool, and the request for the second is stored.
\<close>

theorem packer_cycle_outcome_witness:
  "schedule_cycle same_second_env [lr_task, job_1] pool_profiles empty_state = Inr after_mixed
   \<and> get_pending_pods [lr_task, job_1] = [] @ lr_task # [job_1]
   \<and> select_target lr_task pool_profiles = Inr (Some ''longrunning-node-1'')
   \<and> \<not> bind_raises same_second_env (pod_name lr_task) ''longrunning-node-1''
   \<and> (pod_name lr_task, ''longrunning-node-1'') \<in> set (bindings after_mixed)
   \<and> get_pending_pods [lr_task, job_1] = [lr_task] @ job_1 # []
   \<and> select_target job_1 pool_profiles = Inr None
   \<and> \<not> create_raises same_second_env (asr_name (request_for same_second_env job_1))
   \<and> asr_name (request_for same_second_env job_1) \<notin> asr_name ` set (requests empty_state)
   \<and> \<not> unplaced pool_profiles lr_task
   \<and> request_for same_second_env job_1 \<in> set (requests after_mixed)
   \<and> named_in after_mixed job_1"
proof -
  note c = cycle_mixed
  have p1: "get_pending_pods [lr_task, job_1] = [] @ lr_task # [job_1]"
    and p2: "get_pending_pods [lr_task, job_1] = [lr_task] @ job_1 # []"
    by (simp_all add: mixed_pending)
  note s1 = mixed_targets(1) and s2 = mixed_targets(2)
  have b: "\<not> bind_raises same_second_env (pod_name lr_task) ''longrunning-node-1''"
    and k: "\<not> create_raises same_second_env (asr_name (request_for same_second_env job_1))"
    by (simp_all add: same_second_env_def)
  have f: "asr_name (request_for same_second_env job_1) \<notin> asr_name ` set (requests empty_state)"
    by (simp add: empty_state_def)
  have u: "\<not> unplaced pool_profiles lr_task"
    by (simp add: unplaced_def s1)
  from packer_cycle_outcome [of same_second_env "[lr_task, job_1]" pool_profiles empty_state]
  obtain st' where e: "schedule_cycle same_second_env [lr_task, job_1] pool_profiles empty_state = Inr st'"
    and a: "\<forall>pre p post. get_pending_pods [lr_task, job_1] = pre @ p # post \<longrightarrow>
          (\<exists>target. select_target p pool_profiles = Inr target
             \<and> (target \<noteq> None \<and> target \<noteq> Some [] \<longrightarrow>
                   ((pod_name p, the target) \<in> set (bindings st')
                    \<or> ErrorBinding (pod_name p) \<in> set (printed st'))
                 \<and> (\<not> bind_raises same_second_env (pod_name p) (the target) \<longrightarrow>
                       (pod_name p, the target) \<in> set (bindings st')))
             \<and> (target = None \<or> target = Some [] \<longrightarrow>
                   (named_in st' p
                    \<or> FailedToCreate (asr_name (request_for same_second_env p)) [pod_name p]
                         \<in> set (printed st'))
                 \<and> (\<not> create_raises same_second_env (asr_name (request_for same_second_env p))
                     \<and> asr_name (request_for same_second_env p) \<notin> asr_name ` set (requests empty_state)
                     \<and> (\<forall>q\<in>set pre. unplaced pool_profiles q \<longrightarrow>
                            asr_name (request_for same_second_env q)
                              \<noteq> asr_name (request_for same_second_env p))
                     \<longrightarrow> request_for same_second_env p \<in> set (requests st') \<and> named_in st' p)))"
    by (elim exE conjE)
  from e c have st: "st' = after_mixed" by simp
  from a [rule_format, OF p1] obtain t1 where
    t1: "select_target lr_task pool_profiles = Inr t1"
    and i1: "t1 \<noteq> None \<and> t1 \<noteq> Some [] \<longrightarrow>
             (\<not> bind_raises same_second_env (pod_name lr_task) (the t1) \<longrightarrow>
                (pod_name lr_task, the t1) \<in> set (bindings st'))"
    by (elim exE conjE) simp
  from t1 s1 have "t1 = Some ''longrunning-node-1''" by simp
  with i1 b have r1: "(pod_name lr_task, ''longrunning-node-1'') \<in> set (bindings after_mixed)"
    unfolding st by simp
  from a [rule_format, OF p2] obtain t2 where
    t2: "select_target job_1 pool_profiles = Inr t2"
    and i2: "t2 = None \<or> t2 = Some [] \<longrightarrow>
              (\<not> create_raises same_second_env (asr_name (request_for same_second_env job_1))
                 \<and> asr_name (request_for same_second_env job_1) \<notin> asr_name ` set (requests empty_state)
                 \<and> (\<forall>q\<in>set [lr_task]. unplaced pool_profiles q \<longrightarrow>
                        asr_name (request_for same_second_env q)
                          \<noteq> asr_name (request_for same_second_env job_1))
                 \<longrightarrow> request_for same_second_env job_1 \<in> set (requests st') \<and> named_in st' job_1)"
    by (elim exE conjE) simp
  from t2 s2 have "t2 = None" by simp
  with i2 k f u have r2: "request_for same_second_env job_1 \<in> set (requests after_mixed)
       \<and> named_in after_mixed job_1"
    unfolding st by simp
  from c p1 p2 s1 s2 b k f u r1 r2 show ?thesis by blast
qed

end
